theory Spec2Isabelle
  imports Complex_Main "HOL-Library.Multiset"
begin

section \<open>Objects, scenes, errors and random draws\<close>

text \<open>
  The repository generates scenes (collections of feature-vector objects), labels them with
  a relation and rebalances batches.  A scene is a 2-D tensor \<^verbatim>\<open>objects\<close> of shape
  \<^verbatim>\<open>(object_count, object_length)\<close>; every named field owns one contiguous column slice,
  \<^verbatim>\<open>field_slices[name]\<close>, and the slices of different names are disjoint
  (\<^verbatim>\<open>ObjectGenerator.__init__\<close> cuts them from the cumulative field lengths).  An object
  row is therefore given by the values of its fields, and
  \<^verbatim>\<open>objects[i, self.field_slices[name]]\<close> is the lookup of \<open>name\<close> in row \<open>i\<close>.

  Exceptions are values: a function that mutates its argument in place returns the raised
  exception (if any) together with the scene as the exception leaves it.
\<close>

datatype error = ValueError | IndexError | TypeError | RuntimeError

text \<open>
  Modelled from the spec: the field generators (\<^verbatim>\<open>object_fields.py\<close>) are not among the
  sources.  The spec gives a field a type tag, an output width (1 for a positional
  coordinate, \<open>N\<close> for a one-hot categorical field) and domain bounds; the relations read
  \<^verbatim>\<open>min_coord\<close>, \<^verbatim>\<open>max_coord\<close> and \<^verbatim>\<open>n_types\<close> from them.  Coordinates are whole numbers.
\<close>

record field_generator =
  min_coord :: int
  max_coord :: int
  n_types :: nat

record obj =
  coord :: "string \<Rightarrow> int"
  cat :: "string \<Rightarrow> int list"

type_synonym scene = "obj list"

definition set_coord :: "scene \<Rightarrow> nat \<Rightarrow> string \<Rightarrow> int \<Rightarrow> scene" where
  "set_coord objects i f v = objects[i := (objects ! i)\<lparr>coord := (coord (objects ! i))(f := v)\<rparr>]"

definition set_cat :: "scene \<Rightarrow> nat \<Rightarrow> string \<Rightarrow> int list \<Rightarrow> scene" where
  "set_cat objects i f v = objects[i := (objects ! i)\<lparr>cat := (cat (objects ! i))(f := v)\<rparr>]"

text \<open>\<^verbatim>\<open>t = torch.zeros(n); t[i] = 1\<close>\<close>

definition one_hot :: "nat \<Rightarrow> nat \<Rightarrow> int list" where
  "one_hot n i = (replicate n 0)[i := 1]"

text \<open>
  Random draws are inputs of the model.  \<^verbatim>\<open>random.randint(a, b)\<close> raises \<^verbatim>\<open>ValueError\<close> on
  an empty range and otherwise returns a value of \<open>[a, b]\<close>: the model reduces the integer
  that the generator draws to the range, so that the value lies in the range and every
  value of the range is reached.  \<^verbatim>\<open>torch.randperm(n)\<close> returns a permutation of
  \<open>0, ..., n - 1\<close> and \<^verbatim>\<open>torch.rand(())\<close> a number in \<open>[0, 1)\<close>; theorems state these as
  hypotheses where they need them.
\<close>

definition randint :: "int \<Rightarrow> int \<Rightarrow> int \<Rightarrow> error + int" where
  "randint a b draw = (if b < a then Inl ValueError else Inr (a + draw mod (b - a + 1)))"

definition is_randperm :: "nat \<Rightarrow> nat list \<Rightarrow> bool" where
  "is_randperm n perm \<longleftrightarrow> distinct perm \<and> set perm = {0..<n}"

text \<open>\<^verbatim>\<open>torch.sign(torch.rand(tuple()) - 0.5)\<close>\<close>

definition rand_sign :: "real \<Rightarrow> int" where
  "rand_sign r = (if r - 1 / 2 > 0 then 1 else if r - 1 / 2 < 0 then - 1 else 0)"

text \<open>
  \<^verbatim>\<open>torch.nonzero(mask).squeeze()\<close> on a 1-D mask: the indices of the true entries.  With
  exactly one index \<^verbatim>\<open>squeeze\<close> leaves a 0-dimensional tensor, which the callers treat
  separately (or fail on).
\<close>

definition nonzero :: "bool list \<Rightarrow> nat list" where
  "nonzero bs = filter (\<lambda>i. bs ! i) [0..<length bs]"

section \<open>Relations\<close>

subsection \<open>\<^verbatim>\<open>ObjectRelation._object_in_position\<close>\<close>

text \<open>
  \<^verbatim>\<open>object_positions\<close> is the \<open>n \<times> d\<close> matrix of position fields with a leading
  dimension added by \<^verbatim>\<open>unsqueeze(0)\<close>: shape \<open>(1, n, d)\<close>.  Comparing it with \<^verbatim>\<open>position\<close>
  broadcasts to \<open>(1, n, d)\<close>; \<^verbatim>\<open>.all(dim=1)\<close> then reduces over the \<open>n\<close> objects and leaves
  shape \<open>(1, d)\<close>.  \<^verbatim>\<open>torch.nonzero\<close> of that 2-D tensor has one row of two indices per true
  entry, shape \<open>(k, 2)\<close>; \<^verbatim>\<open>squeeze\<close> turns \<open>(1, 2)\<close> into \<open>(2,)\<close> and leaves the other
  shapes, and \<^verbatim>\<open>len\<close> is the first dimension of the result.
\<close>

definition unsqueeze0 :: "'a \<Rightarrow> 'a list" where
  "unsqueeze0 t = [t]"

definition all_dim1 :: "nat \<Rightarrow> bool list list list \<Rightarrow> bool list list" where
  "all_dim1 d t = map (\<lambda>blk. map (\<lambda>c. list_all (\<lambda>row. row ! c) blk) [0..<d]) t"

definition nonzero2 :: "bool list list \<Rightarrow> (nat \<times> nat) list" where
  "nonzero2 t = concat (map (\<lambda>i. map (\<lambda>c. (i, c)) (nonzero (t ! i))) [0..<length t])"

definition len_squeeze2 :: "(nat \<times> nat) list \<Rightarrow> nat" where
  "len_squeeze2 idx = (if length idx = 1 then 2 else length idx)"

definition object_in_position :: "string list \<Rightarrow> scene \<Rightarrow> int list \<Rightarrow> bool" where
  "object_in_position position_field_names objects position =
     (let object_positions =
            unsqueeze0 (map (\<lambda>ob. map (coord ob) position_field_names) objects);
          eq = map (map (\<lambda>row. map (\<lambda>c. row ! c = position ! c) [0..<length position]))
                   object_positions;
          matching_indices = nonzero2 (all_dim1 (length position) eq)
      in len_squeeze2 matching_indices > 0)"

subsection \<open>\<^verbatim>\<open>OneDAdjacentRelation\<close>\<close>

record oned_relation =
  relevant_field_name :: string
  relevant_field_generator :: field_generator

text \<open>
  \<^verbatim>\<open>torch.cdist(positions, positions, 1)\<close> is the matrix of pairwise distances
  \<open>\<bar>p - q\<bar>\<close>; on whole numbers \<^verbatim>\<open>isclose(d, 1.0)\<close> is \<open>d = 1\<close>.
\<close>

definition OneDAdjacent_evaluate :: "oned_relation \<Rightarrow> scene \<Rightarrow> bool" where
  "OneDAdjacent_evaluate r objects =
     (let positions = map (\<lambda>ob. coord ob (relevant_field_name r)) objects
      in list_ex (\<lambda>p. list_ex (\<lambda>q. \<bar>p - q\<bar> = 1) positions) positions)"

text \<open>
  \<open>perm\<close> is the value of \<^verbatim>\<open>torch.randperm(objects.shape[0])\<close> and \<open>u\<close> the value of
  \<^verbatim>\<open>torch.rand(tuple())\<close>.  Unpacking \<^verbatim>\<open>perm[:2]\<close> into two names raises \<^verbatim>\<open>ValueError\<close>
  unless it has two elements.
\<close>

definition shift_coord ::
  "field_generator \<Rightarrow> real \<Rightarrow> scene \<Rightarrow> nat \<Rightarrow> string \<Rightarrow> scene" where
  "shift_coord gen u objects index_to_modify f =
     (if coord (objects ! index_to_modify) f = min_coord gen
        then set_coord objects index_to_modify f (min_coord gen + 1)
      else if coord (objects ! index_to_modify) f = max_coord gen - 1
        then set_coord objects index_to_modify f (max_coord gen - 2)
      else set_coord objects index_to_modify f
             (coord (objects ! index_to_modify) f + rand_sign u))"

definition OneDAdjacent_balance ::
  "oned_relation \<Rightarrow> nat list \<Rightarrow> real \<Rightarrow> scene \<Rightarrow> int \<Rightarrow> error option \<times> scene" where
  "OneDAdjacent_balance r perm u objects current_label =
     (if current_label \<noteq> 0 then (Some ValueError, objects)
      else case take 2 perm of
        [index_to_modify, index_to_set_next_to] \<Rightarrow>
          if \<not> (index_to_modify < length objects \<and> index_to_set_next_to < length objects)
          then (Some IndexError, objects)
          else
            let objects1 = set_coord objects index_to_modify (relevant_field_name r)
                             (coord (objects ! index_to_set_next_to) (relevant_field_name r))
            in (None, shift_coord (relevant_field_generator r) u objects1 index_to_modify
                        (relevant_field_name r))
      | _ \<Rightarrow> (Some ValueError, objects))"

subsection \<open>\<^verbatim>\<open>MultipleDAdjacentRelation\<close>\<close>

record multid_relation =
  position_field_names :: "string list"
  position_field_generators :: "field_generator list"

definition l1_distance :: "int list \<Rightarrow> int list \<Rightarrow> int" where
  "l1_distance p q = sum_list (map (\<lambda>(a, b). \<bar>a - b\<bar>) (zip p q))"

definition MultipleDAdjacent_evaluate :: "multid_relation \<Rightarrow> scene \<Rightarrow> bool" where
  "MultipleDAdjacent_evaluate r objects =
     (let positions = map (\<lambda>ob. map (coord ob) (position_field_names r)) objects
      in list_ex (\<lambda>p. list_ex (\<lambda>q. l1_distance p q = 1) positions) positions)"

text \<open>
  \<open>slice_draw\<close> is the integer drawn for
  \<^verbatim>\<open>random.randint(0, len(self.position_field_names) - 1)\<close>.
\<close>

definition copy_coords :: "string list \<Rightarrow> scene \<Rightarrow> nat \<Rightarrow> nat \<Rightarrow> scene" where
  "copy_coords names objects index_to_modify index_to_set_next_to =
     fold (\<lambda>f objs. set_coord objs index_to_modify f (coord (objs ! index_to_set_next_to) f))
          names objects"

definition MultipleDAdjacent_balance ::
  "multid_relation \<Rightarrow> nat list \<Rightarrow> int \<Rightarrow> real \<Rightarrow> scene \<Rightarrow> int \<Rightarrow> error option \<times> scene" where
  "MultipleDAdjacent_balance r perm slice_draw u objects current_label =
     (if current_label \<noteq> 0 then (Some ValueError, objects)
      else case take 2 perm of
        [index_to_modify, index_to_set_next_to] \<Rightarrow>
          if \<not> (index_to_modify < length objects \<and> index_to_set_next_to < length objects)
          then (Some IndexError, objects)
          else
            let objects1 = copy_coords (position_field_names r) objects
                             index_to_modify index_to_set_next_to
            in (case randint 0 (int (length (position_field_names r)) - 1) slice_draw of
                  Inl e \<Rightarrow> (Some e, objects1)
                | Inr slice_index \<Rightarrow>
                    if \<not> (0 \<le> slice_index
                           \<and> nat slice_index < length (position_field_names r)
                           \<and> nat slice_index < length (position_field_generators r))
                    then (Some IndexError, objects1)
                    else (None, shift_coord (position_field_generators r ! nat slice_index) u
                                  objects1 index_to_modify
                                  (position_field_names r ! nat slice_index)))
      | _ \<Rightarrow> (Some ValueError, objects))"

subsection \<open>\<^verbatim>\<open>ColorAboveColorRelation\<close>\<close>

text \<open>
  The constructor reads \<^verbatim>\<open>position_field_names[0]\<close> and \<^verbatim>\<open>[1]\<close> as the \<open>x\<close> and \<open>y\<close>
  field; the record holds these two names, and \<open>colorabove_position_field_names\<close> is the
  pair that \<^verbatim>\<open>_object_in_position\<close> reads.
\<close>

record colorabove_relation =
  x_field_name :: string
  x_field_gen :: field_generator
  y_field_name :: string
  y_field_gen :: field_generator
  color_field_name :: string
  color_field_gen :: field_generator
  above_color_index :: nat
  below_color_index :: nat
  stuck_count_to_perturb_x :: int

definition colorabove_position_field_names :: "colorabove_relation \<Rightarrow> string list" where
  "colorabove_position_field_names r = [x_field_name r, y_field_name r]"

definition above_color_tensor :: "colorabove_relation \<Rightarrow> int list" where
  "above_color_tensor r = one_hot (n_types (color_field_gen r)) (above_color_index r)"

definition below_color_tensor :: "colorabove_relation \<Rightarrow> int list" where
  "below_color_tensor r = one_hot (n_types (color_field_gen r)) (below_color_index r)"

text \<open>\<^verbatim>\<open>objects[colors.eq(t).all(dim=1), self.y_field_slice]\<close>\<close>

definition color_y_positions :: "colorabove_relation \<Rightarrow> int list \<Rightarrow> scene \<Rightarrow> int list" where
  "color_y_positions r t objects =
     map (\<lambda>ob. coord ob (y_field_name r))
         (filter (\<lambda>ob. cat ob (color_field_name r) = t) objects)"

definition ColorAbove_evaluate :: "colorabove_relation \<Rightarrow> scene \<Rightarrow> bool" where
  "ColorAbove_evaluate r objects =
     (let above_color_y_positions = color_y_positions r (above_color_tensor r) objects;
          below_color_y_positions = color_y_positions r (below_color_tensor r) objects
      in if length above_color_y_positions = 0 then False
         else if length below_color_y_positions = 0 then True
         else list_ex (\<lambda>a. list_all (\<lambda>b. a \<ge> b) below_color_y_positions)
                above_color_y_positions)"

text \<open>
  The random draws of one \<^verbatim>\<open>balance\<close> call: \<open>recolor_draw\<close> is the integer drawn for
  \<^verbatim>\<open>random.randint(0, objects.shape[0] - 1)\<close>, \<open>above_perm\<close> the value of
  \<^verbatim>\<open>torch.randperm(above_object_indices.shape[0])\<close>, and \<open>x_draw k\<close>, \<open>y_draw k\<close> the
  integers drawn for the two \<^verbatim>\<open>random.randint\<close> calls of the loop in the iteration where
  \<^verbatim>\<open>stuck_count\<close> is \<open>k\<close>.
\<close>

record colorabove_draws =
  recolor_draw :: int
  above_perm :: "nat list"
  x_draw :: "nat \<Rightarrow> int"
  y_draw :: "nat \<Rightarrow> int"

text \<open>
  One iteration of \<^verbatim>\<open>while collision\<close>, with \<open>k\<close> the incremented \<^verbatim>\<open>stuck_count\<close>: the
  tentative position, or the \<^verbatim>\<open>ValueError\<close> of a \<^verbatim>\<open>randint\<close> on an empty range.
\<close>

definition tentative_new_position ::
  "colorabove_relation \<Rightarrow> colorabove_draws \<Rightarrow> scene \<Rightarrow> nat \<Rightarrow> int \<Rightarrow> nat \<Rightarrow> error + int \<times> int"
  where
  "tentative_new_position r rnd objects index_to_modify max_below_color_position k =
     (case (if int k > stuck_count_to_perturb_x r
            then randint (min_coord (x_field_gen r)) (max_coord (x_field_gen r) - 1) (x_draw rnd k)
            else Inr (coord (objects ! index_to_modify) (x_field_name r))) of
        Inl e \<Rightarrow> Inl e
      | Inr new_above_color_x_position \<Rightarrow>
          (case randint max_below_color_position (max_coord (y_field_gen r) - 1) (y_draw rnd k) of
             Inl e \<Rightarrow> Inl e
           | Inr new_above_color_y_position \<Rightarrow>
               Inr (new_above_color_x_position, new_above_color_y_position)))"

text \<open>
  The loop has no exit but \<^verbatim>\<open>collision\<close> becoming false, so it is a partial function:
  \<open>None\<close> is the loop that never ends.
\<close>

partial_function (option) collision_loop ::
  "colorabove_relation \<Rightarrow> colorabove_draws \<Rightarrow> scene \<Rightarrow> nat \<Rightarrow> int \<Rightarrow> nat
     \<Rightarrow> (error + int \<times> int) option"
  where
  "collision_loop r rnd objects index_to_modify max_below_color_position stuck_count =
     (case tentative_new_position r rnd objects index_to_modify max_below_color_position
             (stuck_count + 1) of
        Inl e \<Rightarrow> Some (Inl e)
      | Inr (new_x, new_y) \<Rightarrow>
          if object_in_position (colorabove_position_field_names r) objects [new_x, new_y]
          then collision_loop r rnd objects index_to_modify max_below_color_position
                 (stuck_count + 1)
          else Some (Inr (new_x, new_y)))"

text \<open>
  Whether the iteration with incremented \<^verbatim>\<open>stuck_count\<close> \<open>k\<close> ends with \<^verbatim>\<open>collision\<close>
  true, so that the loop goes on.
\<close>

definition collides ::
  "colorabove_relation \<Rightarrow> colorabove_draws \<Rightarrow> scene \<Rightarrow> nat \<Rightarrow> int \<Rightarrow> nat \<Rightarrow> bool" where
  "collides r rnd objects index_to_modify max_below_color_position k =
     (case tentative_new_position r rnd objects index_to_modify max_below_color_position k of
        Inl e \<Rightarrow> False
      | Inr (new_x, new_y) \<Rightarrow>
          object_in_position (colorabove_position_field_names r) objects [new_x, new_y])"

text \<open>
  \<^verbatim>\<open>colors\<close> is a view of \<^verbatim>\<open>objects\<close>, so the recoloured object is seen by the masks that
  follow.  \<^verbatim>\<open>above_object_indices\<close> is 0-dimensional when one object has the above colour
  (\<^verbatim>\<open>int(...)\<close>); otherwise a random one is taken, and indexing the empty
  \<^verbatim>\<open>randperm(0)\<close> raises \<^verbatim>\<open>IndexError\<close>.
\<close>

definition create_above_object ::
  "colorabove_relation \<Rightarrow> colorabove_draws \<Rightarrow> scene \<Rightarrow> error + scene" where
  "create_above_object r rnd objects =
     (if length (color_y_positions r (above_color_tensor r) objects) = 0
      then (case randint 0 (int (length objects) - 1) (recolor_draw rnd) of
              Inl e \<Rightarrow> Inl e
            | Inr index_to_modify \<Rightarrow>
                if \<not> (0 \<le> index_to_modify \<and> nat index_to_modify < length objects)
                then Inl IndexError
                else Inr (set_cat objects (nat index_to_modify) (color_field_name r)
                            (above_color_tensor r)))
      else Inr objects)"

definition choose_above_object ::
  "colorabove_relation \<Rightarrow> colorabove_draws \<Rightarrow> scene \<Rightarrow> error + nat" where
  "choose_above_object r rnd objects =
     (let above_object_indices =
            nonzero (map (\<lambda>ob. cat ob (color_field_name r) = above_color_tensor r) objects)
      in if length above_object_indices = 1 then Inr (above_object_indices ! 0)
         else (case above_perm rnd of
                 [] \<Rightarrow> Inl IndexError
               | p # _ \<Rightarrow> if p < length above_object_indices
                          then Inr (above_object_indices ! p) else Inl IndexError))"

definition max_below_position :: "colorabove_relation \<Rightarrow> scene \<Rightarrow> int" where
  "max_below_position r objects =
     (let below_color_y_positions = color_y_positions r (below_color_tensor r) objects
      in if length below_color_y_positions = 0 then min_coord (y_field_gen r)
         else Max (set below_color_y_positions))"

definition ColorAbove_balance ::
  "colorabove_relation \<Rightarrow> colorabove_draws \<Rightarrow> scene \<Rightarrow> int \<Rightarrow> (error option \<times> scene) option"
  where
  "ColorAbove_balance r rnd objects current_label =
     (if current_label \<noteq> 0 then Some (Some ValueError, objects)
      else case create_above_object r rnd objects of
        Inl e \<Rightarrow> Some (Some e, objects)
      | Inr objects1 \<Rightarrow>
          (case choose_above_object r rnd objects1 of
             Inl e \<Rightarrow> Some (Some e, objects1)
           | Inr index_to_modify \<Rightarrow>
               (case collision_loop r rnd objects1 index_to_modify
                       (max_below_position r objects1) 0 of
                  None \<Rightarrow> None
                | Some (Inl e) \<Rightarrow> Some (Some e, objects1)
                | Some (Inr (new_x, new_y)) \<Rightarrow>
                    Some (None, set_coord (set_coord objects1 index_to_modify
                                             (x_field_name r) new_x)
                                  index_to_modify (y_field_name r) new_y))))"

subsection \<open>\<^verbatim>\<open>ObjectCountRelation\<close>\<close>

record objectcount_relation =
  first_field_name :: string
  first_field_gen :: field_generator
  first_field_index :: nat
  second_field_name :: string
  second_field_gen :: field_generator
  second_field_index :: nat

definition first_object_tensor :: "objectcount_relation \<Rightarrow> int list" where
  "first_object_tensor r = one_hot (n_types (first_field_gen r)) (first_field_index r)"

definition second_object_tensor :: "objectcount_relation \<Rightarrow> int list" where
  "second_object_tensor r = one_hot (n_types (second_field_gen r)) (second_field_index r)"

text \<open>\<^verbatim>\<open>first_objects.eq(self.first_object_tensor).all(dim=1)\<close> and its twin, as masks.\<close>

definition first_mask :: "objectcount_relation \<Rightarrow> scene \<Rightarrow> bool list" where
  "first_mask r objects = map (\<lambda>ob. cat ob (first_field_name r) = first_object_tensor r) objects"

definition second_mask :: "objectcount_relation \<Rightarrow> scene \<Rightarrow> bool list" where
  "second_mask r objects =
     map (\<lambda>ob. cat ob (second_field_name r) = second_object_tensor r) objects"

definition mask_sum :: "bool list \<Rightarrow> int" where
  "mask_sum bs = int (length (filter id bs))"

definition ObjectCount_evaluate :: "objectcount_relation \<Rightarrow> scene \<Rightarrow> bool" where
  "ObjectCount_evaluate r objects =
     (let first_object_count = mask_sum (first_mask r objects);
          second_object_count = mask_sum (second_mask r objects)
      in first_object_count > second_object_count)"

text \<open>
  The draws of one \<^verbatim>\<open>balance\<close> call, in the order of the source: the integer drawn
  for \<^verbatim>\<open>random.randint(1, len(second_object_indices) - 1)\<close>, the values of
  \<^verbatim>\<open>torch.randperm(len(second_object_indices))\<close> and of
  \<^verbatim>\<open>random.choices(new_assignment_options, k=...)\<close>, the integer drawn for
  \<^verbatim>\<open>random.randint(min_objects_to_modify, max_objects_to_modify)\<close>, and the value of
  \<^verbatim>\<open>torch.randperm(valid_indices_to_modify.shape[0])\<close>.
\<close>

record objectcount_draws =
  num_second_draw :: int
  second_perm :: "nat list"
  choices_draw :: "nat list"
  num_first_draw :: int
  first_perm :: "nat list"

text \<open>
  \<^verbatim>\<open>t[perm[:k]]\<close> for 1-D index tensors: an index beyond \<open>t\<close> raises \<^verbatim>\<open>IndexError\<close>.
  \<^verbatim>\<open>perm[:k]\<close> with a negative \<open>k\<close> drops the last \<open>-k\<close> elements.
\<close>

definition py_take :: "int \<Rightarrow> 'a list \<Rightarrow> 'a list" where
  "py_take k xs = (if 0 \<le> k then take (nat k) xs else take (length xs - nat (- k)) xs)"

definition py_drop :: "int \<Rightarrow> 'a list \<Rightarrow> 'a list" where
  "py_drop k xs = (if 0 \<le> k then drop (nat k) xs else drop (length xs - nat (- k)) xs)"

definition index_select :: "'a list \<Rightarrow> nat list \<Rightarrow> error + 'a list" where
  "index_select t idx =
     (if list_all (\<lambda>i. i < length t) idx then Inr (map (\<lambda>i. t ! i) idx) else Inl IndexError)"

text \<open>
  \<^verbatim>\<open>objects[rows, start + second_field_index] = 0\<close> followed by
  \<^verbatim>\<open>objects[rows, new_assignments] = 1\<close>, which pairs the \<open>k\<close>-th row with the \<open>k\<close>-th new
  column; both columns lie in the slice of the second field.
\<close>

definition set_cat_entry :: "scene \<Rightarrow> nat \<Rightarrow> string \<Rightarrow> nat \<Rightarrow> int \<Rightarrow> scene" where
  "set_cat_entry objects i f c v = set_cat objects i f ((cat (objects ! i) f)[c := v])"

definition reassign_second ::
  "objectcount_relation \<Rightarrow> nat list \<Rightarrow> nat list \<Rightarrow> scene \<Rightarrow> scene" where
  "reassign_second r rows new_assignments objects =
     fold (\<lambda>(i, c) objs. set_cat_entry objs i (second_field_name r) c 1)
          (zip rows new_assignments)
          (fold (\<lambda>i objs. set_cat_entry objs i (second_field_name r) (second_field_index r) 0)
                rows objects)"

text \<open>
  The branch taken when every object is a second-category object.  It returns the scene and
  the number of objects it changed.  \<^verbatim>\<open>len\<close> of the 0-dimensional index tensor of a
  one-object scene raises \<^verbatim>\<open>TypeError\<close>, \<^verbatim>\<open>list.remove\<close> of an absent index raises
  \<^verbatim>\<open>ValueError\<close>, \<^verbatim>\<open>random.choices\<close> from an empty list raises \<^verbatim>\<open>IndexError\<close>, and
  index lists of different lengths do not broadcast (\<^verbatim>\<open>IndexError\<close>).
\<close>

definition make_room ::
  "objectcount_relation \<Rightarrow> objectcount_draws \<Rightarrow> scene \<Rightarrow> error + scene \<times> int" where
  "make_room r rnd objects =
     (let second_object_indices = nonzero (second_mask r objects)
      in if length second_object_indices = 1 then Inl TypeError
         else case randint 1 (int (length second_object_indices) - 1) (num_second_draw rnd) of
           Inl e \<Rightarrow> Inl e
         | Inr num_second_objects_to_modify \<Rightarrow>
             (case index_select second_object_indices
                     (py_take num_second_objects_to_modify (second_perm rnd)) of
                Inl e \<Rightarrow> Inl e
              | Inr second_object_indices_to_modify \<Rightarrow>
                  if second_field_index r \<notin> set [0..<n_types (second_field_gen r)]
                  then Inl ValueError
                  else
                    let new_assignment_options =
                          remove1 (second_field_index r) [0..<n_types (second_field_gen r)]
                    in if new_assignment_options = [] \<and> 0 < num_second_objects_to_modify
                       then Inl IndexError
                       else if length (choices_draw rnd)
                                 \<noteq> length second_object_indices_to_modify
                       then Inl IndexError
                       else Inr (reassign_second r second_object_indices_to_modify
                                   (choices_draw rnd) objects,
                                 num_second_objects_to_modify)))"

text \<open>
  The second part recolours objects that are not first-category objects;
  \<^verbatim>\<open>first_objects\<close> is a view, so the mask is taken on the scene as it is by then.
\<close>

definition recolor_first :: "objectcount_relation \<Rightarrow> nat list \<Rightarrow> scene \<Rightarrow> scene" where
  "recolor_first r rows objects =
     fold (\<lambda>i objs. set_cat objs i (first_field_name r) (first_object_tensor r)) rows objects"

definition ObjectCount_balance ::
  "objectcount_relation \<Rightarrow> objectcount_draws \<Rightarrow> scene \<Rightarrow> int \<Rightarrow> error option \<times> scene" where
  "ObjectCount_balance r rnd objects current_label =
     (if current_label \<noteq> 0 then (Some ValueError, objects)
      else
        let first_object_count = mask_sum (first_mask r objects);
            second_object_count = mask_sum (second_mask r objects);
            min_objects_to_modify = second_object_count - first_object_count + 1
        in case (if second_object_count = int (length objects)
                 then (case make_room r rnd objects of
                         Inl e \<Rightarrow> Inl e
                       | Inr (objects1, num_second_objects_to_modify) \<Rightarrow>
                           Inr (objects1, min_objects_to_modify - num_second_objects_to_modify))
                 else Inr (objects, min_objects_to_modify)) of
             Inl e \<Rightarrow> (Some e, objects)
           | Inr (objects1, min_objects_to_modify1) \<Rightarrow>
               if min_objects_to_modify1 \<le> 0 then (None, objects1)
               else
                 let max_objects_to_modify = int (length objects) - first_object_count
                 in (case randint min_objects_to_modify1 max_objects_to_modify
                            (num_first_draw rnd) of
                       Inl e \<Rightarrow> (Some e, objects1)
                     | Inr num_objects_to_modify \<Rightarrow>
                         let valid_indices_to_modify =
                               nonzero (map Not (first_mask r objects1))
                         in if length valid_indices_to_modify = 1
                            then (None, recolor_first r valid_indices_to_modify objects1)
                            else (case index_select valid_indices_to_modify (first_perm rnd) of
                                    Inl e \<Rightarrow> (Some e, objects1)
                                  | Inr shuffled \<Rightarrow>
                                      (None, recolor_first r
                                               (py_take num_objects_to_modify shuffled)
                                               objects1))))"

subsection \<open>\<^verbatim>\<open>IdenticalObjectsRelation\<close>\<close>

record identical_relation =
  property_field_names :: "string list"
  property_field_generators :: "field_generator list"

text \<open>
  \<^verbatim>\<open>object_properties\<close> is the \<open>n \<times> p\<close> matrix of the property fields of the objects, with
  a leading dimension added by \<^verbatim>\<open>unsqueeze(0)\<close>: shape \<open>(1, n, p)\<close>.  The loop runs over
  \<^verbatim>\<open>range(object_properties.shape[0] - 1)\<close> and returns \<^verbatim>\<open>True\<close> at the first index whose
  test holds, \<^verbatim>\<open>False\<close> after the loop.  The test compares the blocks after \<open>i\<close> with block
  \<open>i\<close>, reduces with \<^verbatim>\<open>.all(dim=1)\<close> over the rows of a block and then with \<^verbatim>\<open>.any()\<close>.
\<close>

definition property_row :: "identical_relation \<Rightarrow> obj \<Rightarrow> int list" where
  "property_row r ob = concat (map (cat ob) (property_field_names r))"

definition property_width :: "identical_relation \<Rightarrow> nat" where
  "property_width r = sum_list (map n_types (property_field_generators r))"

definition blocks_match :: "nat \<Rightarrow> int list list list \<Rightarrow> int list list \<Rightarrow> bool" where
  "blocks_match p blocks ref =
     list_ex (\<lambda>blk. list_ex (\<lambda>c. list_all (\<lambda>j. blk ! j ! c = ref ! j ! c) [0..<length ref])
                          [0..<p])
             blocks"

definition IdenticalObjects_evaluate :: "identical_relation \<Rightarrow> scene \<Rightarrow> bool" where
  "IdenticalObjects_evaluate r objects =
     (let object_properties = unsqueeze0 (map (property_row r) objects)
      in list_ex (\<lambda>i. blocks_match (property_width r) (drop (i + 1) object_properties)
                         (object_properties ! i))
                 [0..<length object_properties - 1])"

definition copy_cats :: "string list \<Rightarrow> scene \<Rightarrow> nat \<Rightarrow> nat \<Rightarrow> scene" where
  "copy_cats names objects index_to_modify index_to_set_next_to =
     fold (\<lambda>f objs. set_cat objs index_to_modify f (cat (objs ! index_to_set_next_to) f))
          names objects"

definition IdenticalObjects_balance ::
  "identical_relation \<Rightarrow> nat list \<Rightarrow> scene \<Rightarrow> int \<Rightarrow> error option \<times> scene" where
  "IdenticalObjects_balance r perm objects current_label =
     (if current_label \<noteq> 0 then (Some ValueError, objects)
      else case take 2 perm of
        [index_to_modify, index_to_set_next_to] \<Rightarrow>
          if \<not> (index_to_modify < length objects \<and> index_to_set_next_to < length objects)
          then (Some IndexError, objects)
          else (None, copy_cats (property_field_names r) objects
                        index_to_modify index_to_set_next_to)
      | _ \<Rightarrow> (Some ValueError, objects))"

section \<open>Scene generators\<close>

subsection \<open>\<^verbatim>\<open>ObjectGenerator.__call__\<close>\<close>

text \<open>
  The field generators draw the scenes; \<open>sample k\<close> is the \<open>k\<close>-th scene they produce and
  the position in that sequence is the state of the random source.  \<^verbatim>\<open>torch.stack\<close> of an
  empty list raises \<^verbatim>\<open>RuntimeError\<close>.  A label tensor is a list of truth values, and
  \<^verbatim>\<open>labels.sum()\<close> counts the true ones.
\<close>

definition positive_count_of :: "bool list \<Rightarrow> nat" where
  "positive_count_of labels = length (filter id labels)"

definition ObjectGenerator_call ::
  "(scene \<Rightarrow> bool) \<Rightarrow> (nat \<Rightarrow> scene) \<Rightarrow> nat \<Rightarrow> nat
     \<Rightarrow> error + (scene list \<times> bool list) \<times> nat" where
  "ObjectGenerator_call evaluate sample pos batch_size =
     (if batch_size = 0 then Inl RuntimeError
      else
        let batch_tensor = map sample [pos..<pos + batch_size];
            batch_labels = map evaluate batch_tensor
        in Inr ((batch_tensor, batch_labels), pos + batch_size))"

subsection \<open>\<^verbatim>\<open>BalancedBatchObjectGenerator.__call__\<close>\<close>

text \<open>\<^verbatim>\<open>data[mask]\<close> for a boolean mask over the first dimension.\<close>

definition mask_select :: "'a list \<Rightarrow> bool list \<Rightarrow> 'a list" where
  "mask_select data bs = map fst (filter snd (zip data bs))"

text \<open>
  The rejection loop draws full batches until both pools are large enough.  Nothing bounds
  it, so it is a partial function.
\<close>

partial_function (option) rejection_loop ::
  "(scene \<Rightarrow> bool) \<Rightarrow> (nat \<Rightarrow> scene) \<Rightarrow> nat \<Rightarrow> nat \<Rightarrow> nat
     \<Rightarrow> scene list list \<Rightarrow> scene list list \<Rightarrow> nat \<Rightarrow> nat
     \<Rightarrow> (error + scene list list \<times> scene list list) option"
  where
  "rejection_loop evaluate sample batch_size half_batch_size pos
       positive_examples negative_examples positive_count negative_count =
     (if negative_count < half_batch_size \<or> positive_count < half_batch_size then
        (case ObjectGenerator_call evaluate sample pos batch_size of
           Inl e \<Rightarrow> Some (Inl e)
         | Inr ((data, labels), pos') \<Rightarrow>
             rejection_loop evaluate sample batch_size half_batch_size pos'
               (if positive_count < half_batch_size
                then positive_examples @ [mask_select data labels] else positive_examples)
               (if negative_count < half_batch_size
                then negative_examples @ [mask_select data (map Not labels)]
                else negative_examples)
               (if positive_count < half_batch_size
                then positive_count + positive_count_of labels else positive_count)
               (if negative_count < half_batch_size
                then negative_count + (batch_size - positive_count_of labels)
                else negative_count))
      else Some (Inr (positive_examples, negative_examples)))"

text \<open>\<^verbatim>\<open>torch.cat\<close> of an empty list raises \<^verbatim>\<open>RuntimeError\<close>.\<close>

definition torch_cat :: "'a list list \<Rightarrow> error + 'a list" where
  "torch_cat ts = (if ts = [] then Inl RuntimeError else Inr (concat ts))"

text \<open>
  \<open>perm\<close> is the value of \<^verbatim>\<open>torch.randperm(batch_size)\<close>; \<^verbatim>\<open>int(batch_size / 2)\<close> is
  \<open>batch_size div 2\<close>.
\<close>

definition permute_batch ::
  "nat \<Rightarrow> nat list \<Rightarrow> scene list list \<Rightarrow> scene list list
     \<Rightarrow> error + scene list \<times> bool list" where
  "permute_batch half_batch_size perm positive_examples negative_examples =
     (case torch_cat positive_examples of
        Inl e \<Rightarrow> Inl e
      | Inr positives \<Rightarrow>
          (case torch_cat negative_examples of
             Inl e \<Rightarrow> Inl e
           | Inr negatives \<Rightarrow>
               let data = take half_batch_size positives @ take half_batch_size negatives;
                   labels = replicate half_batch_size True @ replicate half_batch_size False
               in (case index_select data perm of
                     Inl e \<Rightarrow> Inl e
                   | Inr data' \<Rightarrow>
                       (case index_select labels perm of
                          Inl e \<Rightarrow> Inl e
                        | Inr labels' \<Rightarrow> Inr (data', labels')))))"

definition BalancedBatch_call ::
  "(scene \<Rightarrow> bool) \<Rightarrow> (nat \<Rightarrow> scene) \<Rightarrow> nat list \<Rightarrow> nat
     \<Rightarrow> (error + scene list \<times> bool list) option" where
  "BalancedBatch_call evaluate sample perm batch_size =
     (if batch_size = 1 then
        (case ObjectGenerator_call evaluate sample 0 1 of
           Inl e \<Rightarrow> Some (Inl e)
         | Inr (batch, _) \<Rightarrow> Some (Inr batch))
      else
        let half_batch_size = batch_size div 2
        in (case rejection_loop evaluate sample batch_size half_batch_size 0 [] [] 0 0 of
              None \<Rightarrow> None
            | Some (Inl e) \<Rightarrow> Some (Inl e)
            | Some (Inr (positive_examples, negative_examples)) \<Rightarrow>
                Some (permute_batch half_batch_size perm positive_examples negative_examples)))"

subsection \<open>\<^verbatim>\<open>SmartBalancedBatchObjectGenerator.__call__\<close>\<close>

record smart_generator =
  negative_to_positive :: bool
  max_recursion_depth :: nat

text \<open>\<^verbatim>\<open>data[indices] = values\<close> for a 1-D index tensor and as many values.\<close>

definition scatter :: "'a list \<Rightarrow> nat list \<Rightarrow> 'a list \<Rightarrow> 'a list" where
  "scatter data indices vs = fold (\<lambda>(i, v) d. d[i := v]) (zip indices vs) data"

text \<open>
  The state of the \<^verbatim>\<open>while\<close> loop that resamples the scenes of the surplus class.  The
  loop ends by \<^verbatim>\<open>return data, labels\<close> (\<open>returned\<close> is true), by its condition becoming
  false, or by the \<^verbatim>\<open>ValueError\<close> of the depth check.  \<^verbatim>\<open>len\<close> of a 0-dimensional index
  tensor (exactly one index) raises \<^verbatim>\<open>TypeError\<close>.
\<close>

record loop_state =
  returned :: bool
  data_of :: "scene list"
  labels_of :: "bool list"
  positive_count :: nat
  recursion_depth_of :: nat
  sample_pos :: nat

function resample_loop ::
  "smart_generator \<Rightarrow> (scene \<Rightarrow> bool) \<Rightarrow> (nat \<Rightarrow> scene) \<Rightarrow> nat
     \<Rightarrow> nat \<Rightarrow> scene list \<Rightarrow> bool list \<Rightarrow> nat \<Rightarrow> error + loop_state" where
  "resample_loop g evaluate sample half_batch_size recursion_depth data labels pos =
     (if recursion_depth + 1 > max_recursion_depth g then Inl ValueError
      else
        let indices_to_resample = nonzero (map (\<lambda>l. l = negative_to_positive g) labels)
        in if length indices_to_resample = 1 then Inl TypeError
           else (case ObjectGenerator_call evaluate sample pos (length indices_to_resample) of
                   Inl e \<Rightarrow> Inl e
                 | Inr ((resampled_data, resampled_labels), pos') \<Rightarrow>
                     let data' = scatter data indices_to_resample resampled_data;
                         labels' = scatter labels indices_to_resample resampled_labels
                     in if positive_count_of labels' = half_batch_size
                        then Inr \<lparr>returned = True, data_of = data', labels_of = labels',
                                  positive_count = positive_count_of labels',
                                  recursion_depth_of = recursion_depth + 1, sample_pos = pos'\<rparr>
                        else if (positive_count_of labels' > half_batch_size)
                                  = negative_to_positive g
                        then resample_loop g evaluate sample half_batch_size
                               (recursion_depth + 1) data' labels' pos'
                        else Inr \<lparr>returned = False, data_of = data', labels_of = labels',
                                  positive_count = positive_count_of labels',
                                  recursion_depth_of = recursion_depth + 1,
                                  sample_pos = pos'\<rparr>))"
  by pat_completeness auto
termination
  by (relation "measure (\<lambda>(g, evaluate, sample, half_batch_size, recursion_depth, rest).
                           max_recursion_depth g - recursion_depth)") auto

text \<open>
  The \<^verbatim>\<open>for\<close> loop over the target indices.  \<open>balance k\<close> is the relation's balancer with
  the random draws of the \<open>k\<close>-th call; it may raise, or not return at all.  The balancer
  works in place on \<^verbatim>\<open>data[index]\<close>; the label is set to \<^verbatim>\<open>self.negative_to_positive\<close>
  without evaluating the relation again.
\<close>

fun balance_targets ::
  "smart_generator \<Rightarrow> (nat \<Rightarrow> scene \<Rightarrow> int \<Rightarrow> (error option \<times> scene) option) \<Rightarrow> nat
     \<Rightarrow> nat list \<Rightarrow> scene list \<Rightarrow> bool list \<Rightarrow> (error + scene list \<times> bool list) option" where
  "balance_targets g balance k [] data labels = Some (Inr (data, labels))"
| "balance_targets g balance k (index # target_indices) data labels =
     (case balance k (data ! index) (if \<not> negative_to_positive g then 1 else 0) of
        None \<Rightarrow> None
      | Some (Some e, _) \<Rightarrow> Some (Inl e)
      | Some (None, objects) \<Rightarrow>
          balance_targets g balance (k + 1) target_indices
            (data[index := objects]) (labels[index := negative_to_positive g]))"

text \<open>
  \<open>randperm n\<close> is the value of \<^verbatim>\<open>torch.randperm(n)\<close>.  \<^verbatim>\<open>.shape[0]\<close> of a 0-dimensional
  index tensor raises \<^verbatim>\<open>IndexError\<close>.
\<close>

definition SmartBalanced_call ::
  "smart_generator \<Rightarrow> (scene \<Rightarrow> bool)
     \<Rightarrow> (nat \<Rightarrow> scene \<Rightarrow> int \<Rightarrow> (error option \<times> scene) option)
     \<Rightarrow> (nat \<Rightarrow> scene) \<Rightarrow> (nat \<Rightarrow> nat list) \<Rightarrow> nat \<Rightarrow> nat
     \<Rightarrow> (error + scene list \<times> bool list) option" where
  "SmartBalanced_call g evaluate balance sample randperm batch_size recursion_depth =
     (if batch_size = 1 then
        (case ObjectGenerator_call evaluate sample 0 1 of
           Inl e \<Rightarrow> Some (Inl e)
         | Inr (batch, _) \<Rightarrow> Some (Inr batch))
      else if recursion_depth > max_recursion_depth g then Some (Inl ValueError)
      else case ObjectGenerator_call evaluate sample 0 batch_size of
        Inl e \<Rightarrow> Some (Inl e)
      | Inr ((data, labels), pos) \<Rightarrow>
          let half_batch_size = batch_size div 2
          in if positive_count_of labels = half_batch_size then Some (Inr (data, labels))
             else (case (if (positive_count_of labels > half_batch_size) = negative_to_positive g
                         then resample_loop g evaluate sample half_batch_size recursion_depth
                                data labels pos
                         else Inr \<lparr>returned = False, data_of = data, labels_of = labels,
                                   positive_count = positive_count_of labels,
                                   recursion_depth_of = recursion_depth, sample_pos = pos\<rparr>) of
                     Inl e \<Rightarrow> Some (Inl e)
                   | Inr st \<Rightarrow>
                       if returned st then Some (Inr (data_of st, labels_of st))
                       else
                         let indices_to_modify =
                               nonzero (map (\<lambda>l. l = (\<not> negative_to_positive g)) (labels_of st))
                         in if length indices_to_modify = 1 then Some (Inl IndexError)
                            else
                              let num_samples_to_modify =
                                    nat \<bar>int (positive_count st) - int half_batch_size\<bar>
                              in (case index_select indices_to_modify
                                         (take num_samples_to_modify
                                            (randperm (length indices_to_modify))) of
                                    Inl e \<Rightarrow> Some (Inl e)
                                  | Inr target_indices \<Rightarrow>
                                      balance_targets g balance 0 target_indices
                                        (data_of st) (labels_of st))))"

section \<open>Structured dataset builders\<close>

subsection \<open>The random source\<close>

text \<open>
  A builder owns one \<^verbatim>\<open>numpy\<close> generator, \<^verbatim>\<open>np.random.default_rng(seed)\<close>.  The model
  takes the library as a parameter: \<open>default_rng\<close> maps a seed to a generator state, and
  \<open>rng_permutation g n\<close> is the permutation of \<open>0, ..., n - 1\<close> that the generator in
  state \<open>g\<close> draws, with the state it is left in.  \<^verbatim>\<open>rng.shuffle(items)\<close> rearranges
  \<^verbatim>\<open>items\<close> by such a permutation, and \<^verbatim>\<open>rng.permutation(np.arange(n))\<close> returns one.
\<close>

record rng_model =
  default_rng :: "int \<Rightarrow> nat"
  rng_permutation :: "nat \<Rightarrow> nat \<Rightarrow> nat list \<times> nat"

definition rng_ok :: "rng_model \<Rightarrow> bool" where
  "rng_ok np \<longleftrightarrow> (\<forall>g n. is_randperm n (fst (rng_permutation np g n)))"

definition rng_shuffle :: "rng_model \<Rightarrow> nat \<Rightarrow> 'a list \<Rightarrow> 'a list \<times> nat" where
  "rng_shuffle np g items =
     (let (perm, g') = rng_permutation np g (length items)
      in (map (\<lambda>i. items ! i) perm, g'))"

subsection \<open>\<^verbatim>\<open>QuinnDatasetGenerator\<close>\<close>

text \<open>
  A dataset holds the object tensor and the label tensor (\<^verbatim>\<open>MinimalDataset\<close>; the spatial
  classes add a tensor computed from these).
\<close>

record 'o dataset =
  ds_objects :: "'o list"
  ds_labels :: "int list"

record 'o quinn_generator =
  reference_object_length :: int
  x_max :: int
  y_max :: int
  seed :: int
  rng :: nat
  prop_train_reference_object_locations :: "real option"
  reference_object_x_margin :: int
  reference_object_y_margin_bottom :: int
  reference_object_y_margin_top :: int
  train_reference_object_locations :: "(int \<times> int) list"
  test_reference_object_locations :: "(int \<times> int) list"
  prop_train_to_validation :: "real option"
  train_dataset :: "'o dataset option"
  validation_dataset :: "'o dataset option"
  test_datasets :: "(string \<rightharpoonup> 'o dataset) option"

text \<open>
  The arguments of \<^verbatim>\<open>__init__\<close> that the location split reads;
  \<open>arg_reference_object_length\<close> is \<^verbatim>\<open>object_generator.reference_object_length\<close>.
\<close>

record quinn_args =
  arg_reference_object_length :: int
  arg_x_max :: int
  arg_y_max :: int
  arg_seed :: int
  arg_prop_train_reference_object_locations :: "real option"
  arg_reference_object_x_margin :: "int option"
  arg_reference_object_y_margin_bottom :: int
  arg_reference_object_y_margin_top :: int
  arg_prop_train_to_validation :: "real option"

text \<open>\<^verbatim>\<open>range(a, b)\<close>\<close>

definition py_range :: "int \<Rightarrow> int \<Rightarrow> int list" where
  "py_range a b = [a..b - 1]"

text \<open>
  \<^verbatim>\<open>_split_train_test\<close> returns the two slices and the state the generator is left in.
  The product \<^verbatim>\<open>len(items) * prop_train\<close> is taken exactly.
\<close>

definition split_train_test ::
  "rng_model \<Rightarrow> nat \<Rightarrow> 'a list \<Rightarrow> real option \<Rightarrow> int option
     \<Rightarrow> error + ('a list \<times> 'a list) \<times> nat" where
  "split_train_test np g items prop_train max_train_index =
     (if prop_train = None \<and> max_train_index = None then Inl ValueError
      else
        let (items', g') = rng_shuffle np g items;
            max_train_index' =
              (case max_train_index of
                 Some k \<Rightarrow> k
               | None \<Rightarrow> (case prop_train of
                             Some p \<Rightarrow> \<lfloor>real (length items) * p\<rfloor>
                           | None \<Rightarrow> 0))
        in Inr ((py_take max_train_index' items', py_drop max_train_index' items'), g'))"

definition possible_reference_object_locations :: "quinn_args \<Rightarrow> (int \<times> int) list" where
  "possible_reference_object_locations a =
     (let reference_object_x_margin' =
            (case arg_reference_object_x_margin a of None \<Rightarrow> 0 | Some mgn \<Rightarrow> mgn)
      in List.product
           (py_range reference_object_x_margin'
              (arg_x_max a - reference_object_x_margin' - arg_reference_object_length a))
           (py_range (arg_reference_object_y_margin_bottom a)
              (arg_y_max a - arg_reference_object_y_margin_top a)))"

definition QuinnDatasetGenerator_init ::
  "rng_model \<Rightarrow> quinn_args \<Rightarrow> error + 'o quinn_generator" where
  "QuinnDatasetGenerator_init np a =
     (case split_train_test np (default_rng np (arg_seed a))
             (possible_reference_object_locations a)
             (arg_prop_train_reference_object_locations a) None of
        Inl e \<Rightarrow> Inl e
      | Inr ((train_locations, test_locations), g') \<Rightarrow>
          Inr \<lparr>reference_object_length = arg_reference_object_length a,
               x_max = arg_x_max a, y_max = arg_y_max a, seed = arg_seed a, rng = g',
               prop_train_reference_object_locations =
                 arg_prop_train_reference_object_locations a,
               reference_object_x_margin =
                 (case arg_reference_object_x_margin a of None \<Rightarrow> 0 | Some mgn \<Rightarrow> mgn),
               reference_object_y_margin_bottom = arg_reference_object_y_margin_bottom a,
               reference_object_y_margin_top = arg_reference_object_y_margin_top a,
               train_reference_object_locations = train_locations,
               test_reference_object_locations = test_locations,
               prop_train_to_validation = arg_prop_train_to_validation a,
               train_dataset = None, validation_dataset = None, test_datasets = None\<rparr>)"

text \<open>
  \<^verbatim>\<open>_create_training_dataset\<close> and \<^verbatim>\<open>_create_test_datasets\<close> are abstract in the base
  class and \<^verbatim>\<open>_create_dataset\<close> picks the dataset class; the paradigms supply them.  They
  are parameters here: each may raise, and the two that sample return the builder as they
  leave it (they draw from \<^verbatim>\<open>self.rng\<close>).
\<close>

record 'o quinn_methods =
  create_dataset :: "'o list \<Rightarrow> int list \<Rightarrow> error + 'o dataset"
  create_training_dataset :: "'o quinn_generator \<Rightarrow> (error + 'o dataset) \<times> 'o quinn_generator"
  create_test_datasets ::
    "'o quinn_generator \<Rightarrow> (error + (string \<rightharpoonup> 'o dataset)) \<times> 'o quinn_generator"

definition split_dataset ::
  "rng_model \<Rightarrow> 'o quinn_methods \<Rightarrow> 'o quinn_generator \<Rightarrow> 'o dataset \<Rightarrow> real option \<Rightarrow> int option
     \<Rightarrow> (error + 'o dataset \<times> 'o dataset) \<times> 'o quinn_generator" where
  "split_dataset np m self ds prop_split split_index =
     (if prop_split = None \<and> split_index = None then (Inl ValueError, self)
      else
        let (perm, g') = rng_permutation np (rng self) (length (ds_objects ds));
            self' = self\<lparr>rng := g'\<rparr>;
            split_index' =
              (case split_index of
                 Some k \<Rightarrow> k
               | None \<Rightarrow> (case prop_split of
                             Some p \<Rightarrow> \<lfloor>real (length (ds_objects ds)) * p\<rfloor>
                           | None \<Rightarrow> 0));
            first_split = py_take split_index' perm;
            second_split = py_drop split_index' perm
        in (case index_select (ds_objects ds) first_split of
              Inl e \<Rightarrow> (Inl e, self')
            | Inr objects1 \<Rightarrow>
          (case index_select (ds_labels ds) first_split of
              Inl e \<Rightarrow> (Inl e, self')
            | Inr labels1 \<Rightarrow>
          (case create_dataset m objects1 labels1 of
              Inl e \<Rightarrow> (Inl e, self')
            | Inr first \<Rightarrow>
          (case index_select (ds_objects ds) second_split of
              Inl e \<Rightarrow> (Inl e, self')
            | Inr objects2 \<Rightarrow>
          (case index_select (ds_labels ds) second_split of
              Inl e \<Rightarrow> (Inl e, self')
            | Inr labels2 \<Rightarrow>
          (case create_dataset m objects2 labels2 of
              Inl e \<Rightarrow> (Inl e, self')
            | Inr second \<Rightarrow> (Inr (first, second), self'))))))))"

definition get_training_dataset ::
  "rng_model \<Rightarrow> 'o quinn_methods \<Rightarrow> 'o quinn_generator
     \<Rightarrow> (error + 'o dataset) \<times> 'o quinn_generator" where
  "get_training_dataset np m self =
     (case train_dataset self of
        Some ds \<Rightarrow> (Inr ds, self)
      | None \<Rightarrow>
          (case create_training_dataset m self of
             (Inl e, self1) \<Rightarrow> (Inl e, self1)
           | (Inr ds, self1) \<Rightarrow>
               let self2 = self1\<lparr>train_dataset := Some ds\<rparr>
               in (case prop_train_to_validation self2 of
                     None \<Rightarrow> (Inr ds, self2)
                   | Some p \<Rightarrow>
                       if p > 0 then
                         (case split_dataset np m self2 ds (Some (1 - p)) None of
                            (Inl e, self3) \<Rightarrow> (Inl e, self3)
                          | (Inr (train, val), self3) \<Rightarrow>
                              (Inr train, self3\<lparr>train_dataset := Some train,
                                                 validation_dataset := Some val\<rparr>))
                       else (Inr ds, self2))))"

definition get_test_datasets ::
  "'o quinn_methods \<Rightarrow> 'o quinn_generator
     \<Rightarrow> (error + (string \<rightharpoonup> 'o dataset)) \<times> 'o quinn_generator" where
  "get_test_datasets m self =
     (case test_datasets self of
        Some tds \<Rightarrow> (Inr tds, self)
      | None \<Rightarrow>
          (case create_test_datasets m self of
             (Inl e, self1) \<Rightarrow> (Inl e, self1)
           | (Inr tds, self1) \<Rightarrow> (Inr tds, self1\<lparr>test_datasets := Some tds\<rparr>)))"

section \<open>Example configurations and scenes\<close>

text \<open>
  A generator with the fields \<open>x\<close>, \<open>y\<close> on the grid \<open>[0, 20)\<close> and the one-hot fields
  \<open>color\<close> and \<open>shape\<close>, and the relations with the defaults of their constructors.
\<close>

definition mk_obj :: "int \<Rightarrow> int \<Rightarrow> int list \<Rightarrow> int list \<Rightarrow> obj" where
  "mk_obj x y color shape =
     \<lparr>coord = (\<lambda>f. if f = ''x'' then x else if f = ''y'' then y else 0),
      cat = (\<lambda>f. if f = ''color'' then color else if f = ''shape'' then shape else [])\<rparr>"

definition grid20 :: field_generator where
  "grid20 = \<lparr>min_coord = 0, max_coord = 20, n_types = 0\<rparr>"

definition palette :: "nat \<Rightarrow> field_generator" where
  "palette n = \<lparr>min_coord = 0, max_coord = 0, n_types = n\<rparr>"

definition oned_default :: oned_relation where
  "oned_default = \<lparr>relevant_field_name = ''x'', relevant_field_generator = grid20\<rparr>"

definition multid_default :: multid_relation where
  "multid_default =
     \<lparr>position_field_names = [''x'', ''y''], position_field_generators = [grid20, grid20]\<rparr>"

definition colorabove_default :: colorabove_relation where
  "colorabove_default =
     \<lparr>x_field_name = ''x'', x_field_gen = grid20, y_field_name = ''y'', y_field_gen = grid20,
      color_field_name = ''color'', color_field_gen = palette 2,
      above_color_index = 0, below_color_index = 1, stuck_count_to_perturb_x = 10\<rparr>"

definition objectcount_default :: objectcount_relation where
  "objectcount_default =
     \<lparr>first_field_name = ''color'', first_field_gen = palette 2, first_field_index = 0,
      second_field_name = ''shape'', second_field_gen = palette 2, second_field_index = 0\<rparr>"

definition identical_default :: identical_relation where
  "identical_default =
     \<lparr>property_field_names = [''color'', ''shape''],
      property_field_generators = [palette 2, palette 2]\<rparr>"

text \<open>Two objects with the same colour and shape at different places.\<close>

definition twin_scene :: scene where
  "twin_scene = [mk_obj 1 2 [1, 0] [0, 1], mk_obj 5 7 [1, 0] [0, 1]]"

text \<open>Two objects that differ in colour and in shape.\<close>

definition mixed_scene :: scene where
  "mixed_scene = [mk_obj 1 2 [1, 0] [0, 1], mk_obj 5 7 [0, 1] [1, 0]]"

text \<open>An above-colour object at height 10 and a below-colour object at height 5, and the
  scene with the heights swapped.\<close>

definition above_scene :: scene where
  "above_scene = [mk_obj 3 10 [1, 0] [1, 0], mk_obj 4 5 [0, 1] [1, 0]]"

definition below_scene :: scene where
  "below_scene = [mk_obj 3 5 [1, 0] [1, 0], mk_obj 4 10 [0, 1] [1, 0]]"

definition no_draws :: colorabove_draws where
  "no_draws = \<lparr>recolor_draw = 0, above_perm = [], x_draw = (\<lambda>k. 0), y_draw = (\<lambda>k. 0)\<rparr>"

definition no_count_draws :: objectcount_draws where
  "no_count_draws = \<lparr>num_second_draw = 0, second_perm = [], choices_draw = [],
                      num_first_draw = 0, first_perm = []\<rparr>"

text \<open>
  A random source for the examples: the generator state counts the draws, and every
  permutation drawn is the reversal.
\<close>

definition example_rng :: rng_model where
  "example_rng = \<lparr>default_rng = (\<lambda>s. nat \<bar>s\<bar>), rng_permutation = (\<lambda>g n. (rev [0..<n], Suc g))\<rparr>"

text \<open>A canvas too narrow for a reference object of length 5, and one with ten legal
  places for a reference object of length 2; the builders that construction returns.\<close>

definition narrow_args :: quinn_args where
  "narrow_args = \<lparr>arg_reference_object_length = 5, arg_x_max = 4, arg_y_max = 20, arg_seed = 33,
     arg_prop_train_reference_object_locations = Some (8 / 10),
     arg_reference_object_x_margin = Some 0, arg_reference_object_y_margin_bottom = 0,
     arg_reference_object_y_margin_top = 0, arg_prop_train_to_validation = Some (1 / 10)\<rparr>"

definition small_args :: quinn_args where
  "small_args = \<lparr>arg_reference_object_length = 2, arg_x_max = 4, arg_y_max = 5, arg_seed = 33,
     arg_prop_train_reference_object_locations = Some (8 / 10),
     arg_reference_object_x_margin = None, arg_reference_object_y_margin_bottom = 0,
     arg_reference_object_y_margin_top = 0, arg_prop_train_to_validation = Some (1 / 10)\<rparr>"

definition small_builder :: "nat quinn_generator" where
  "small_builder =
     \<lparr>reference_object_length = 2, x_max = 4, y_max = 5, seed = 33, rng = 34,
      prop_train_reference_object_locations = Some (8 / 10),
      reference_object_x_margin = 0, reference_object_y_margin_bottom = 0,
      reference_object_y_margin_top = 0,
      train_reference_object_locations =
        [(1, 4), (1, 3), (1, 2), (1, 1), (1, 0), (0, 4), (0, 3), (0, 2)],
      test_reference_object_locations = [(0, 1), (0, 0)],
      prop_train_to_validation = Some (1 / 10), train_dataset = None,
      validation_dataset = None, test_datasets = None\<rparr>"

definition narrow_builder :: "nat quinn_generator" where
  "narrow_builder =
     \<lparr>reference_object_length = 5, x_max = 4, y_max = 20, seed = 33, rng = 34,
      prop_train_reference_object_locations = Some (8 / 10),
      reference_object_x_margin = 0, reference_object_y_margin_bottom = 0,
      reference_object_y_margin_top = 0,
      train_reference_object_locations = [],
      test_reference_object_locations = [],
      prop_train_to_validation = Some (1 / 10), train_dataset = None,
      validation_dataset = None, test_datasets = None\<rparr>"

text \<open>Stand-ins for the methods of a paradigm, which draw from the builder's generator,
  and the builders after the first access.\<close>

definition example_methods :: "nat quinn_methods" where
  "example_methods =
     \<lparr>create_dataset = (\<lambda>objs labs. Inr \<lparr>ds_objects = objs, ds_labels = labs\<rparr>),
      create_training_dataset =
        (\<lambda>self. (Inr \<lparr>ds_objects = [rng self, rng self + 1, rng self + 2, rng self + 3],
                         ds_labels = [0, 1, 0, 1]\<rparr>,
                   self\<lparr>rng := rng self + 4\<rparr>)),
      create_test_datasets =
        (\<lambda>self. (Inr [''test_reference_test_target'' \<mapsto>
                         \<lparr>ds_objects = [rng self], ds_labels = [1]\<rparr>],
                   self\<lparr>rng := rng self + 1\<rparr>))\<rparr>"

definition cached_dataset :: "nat dataset" where
  "cached_dataset = \<lparr>ds_objects = [37, 36, 35], ds_labels = [1, 0, 1]\<rparr>"

definition cached_builder :: "nat quinn_generator" where
  "cached_builder = small_builder\<lparr>rng := 39, train_dataset := Some cached_dataset,
     validation_dataset := Some \<lparr>ds_objects = [34], ds_labels = [0]\<rparr>\<rparr>"

definition cached_tests :: "string \<rightharpoonup> nat dataset" where
  "cached_tests = [''test_reference_test_target'' \<mapsto> \<lparr>ds_objects = [34], ds_labels = [1]\<rparr>]"

definition tested_builder :: "nat quinn_generator" where
  "tested_builder = small_builder\<lparr>rng := 35, test_datasets := Some cached_tests\<rparr>"

text \<open>
  Two below-colour objects in the top row.  The draws lie in the ranges of the loop, and
  every \<open>x\<close> drawn is the \<open>x\<close> of one of the objects.  \<open>stuck_scene1\<close> is the scene
  after the balancer has recoloured object 0.
\<close>

definition stuck_scene :: scene where
  "stuck_scene = [mk_obj 1 19 [0, 1] [1, 0], mk_obj 5 19 [0, 1] [1, 0]]"

definition stuck_draws :: colorabove_draws where
  "stuck_draws = \<lparr>recolor_draw = 0, above_perm = [0],
                   x_draw = (\<lambda>k. if even k then 1 else 5), y_draw = (\<lambda>k. 19)\<rparr>"

definition stuck_scene1 :: scene where
  "stuck_scene1 = [mk_obj 1 19 [1, 0] [1, 0], mk_obj 5 19 [0, 1] [1, 0]]"

text \<open>An above-colour object below a below-colour object in the same column.\<close>

definition column_scene :: scene where
  "column_scene = [mk_obj 3 5 [1, 0] [1, 0], mk_obj 3 10 [0, 1] [1, 0]]"

definition late_draws :: colorabove_draws where
  "late_draws = \<lparr>recolor_draw = 0, above_perm = [0],
                  x_draw = (\<lambda>k. 7), y_draw = (\<lambda>k. 12)\<rparr>"

text \<open>
  A sequence of drawn scenes for the one-dimensional adjacency relation: the scenes at
  even positions have two adjacent objects, the others have none.
\<close>

definition alternating_sample :: "nat \<Rightarrow> scene" where
  "alternating_sample k =
     (if even k then [mk_obj 1 0 [1, 0] [1, 0], mk_obj 2 0 [0, 1] [1, 0]]
      else [mk_obj 1 0 [1, 0] [1, 0], mk_obj 5 0 [0, 1] [1, 0]])"

text \<open>
  A directed balanced generator that converts negatives and allows one correction round,
  the one-dimensional balancer with fixed draws, and the reversal as the permutation.
\<close>

definition smart_example :: smart_generator where
  "smart_example = \<lparr>negative_to_positive = True, max_recursion_depth = 1\<rparr>"

definition example_balance :: "nat \<Rightarrow> scene \<Rightarrow> int \<Rightarrow> (error option \<times> scene) option" where
  "example_balance k objects current_label =
     Some (OneDAdjacent_balance oned_default [0, 1] (3 / 4) objects current_label)"

definition reversed :: "nat \<Rightarrow> nat list" where
  "reversed n = rev [0..<n]"

section \<open>Properties of the relations\<close>

lemma one_hot_2 [simp]: "one_hot 2 0 = [1, 0]" "one_hot 2 (Suc 0) = [0, 1]"
  by (simp_all add: one_hot_def numeral_2_eq_2)

subsection \<open>Identical objects\<close>

lemma IdenticalObjects_evaluate_never: "\<not> IdenticalObjects_evaluate r objects"
  by (simp add: IdenticalObjects_evaluate_def unsqueeze0_def)

text \<open>
  Claim C2.  The identical-objects relation should evaluate to true exactly when two
  objects of the scene share the values of all property fields, and so to true on some
  scene with two such objects.  In \<open>twin_scene\<close> the two objects have the same colour and
  the same shape, at different places, and \<^verbatim>\<open>evaluate\<close> returns false: the leading
  dimension that \<^verbatim>\<open>unsqueeze(0)\<close> adds has size one, so the loop over
  \<^verbatim>\<open>range(shape[0] - 1)\<close> has no iteration, on this and on every scene.
\<close>

theorem identical_evaluate_twin_scene:
  "property_row identical_default (twin_scene ! 0)
     = property_row identical_default (twin_scene ! 1)
   \<and> (coord (twin_scene ! 0) ''x'', coord (twin_scene ! 0) ''y'')
     \<noteq> (coord (twin_scene ! 1) ''x'', coord (twin_scene ! 1) ''y'')
   \<and> IdenticalObjects_evaluate identical_default twin_scene = False"
  by (simp add: IdenticalObjects_evaluate_def unsqueeze0_def property_row_def
      identical_default_def twin_scene_def mk_obj_def)

text \<open>
  Claim C1.  Re-evaluating the relation on a balanced negative scene should give the
  positive label, for every relation.  For the identical-objects relation the balancer
  copies the property fields of object 1 onto object 0 of \<open>mixed_scene\<close> and returns
  without error, the two objects then agree on all property fields, and \<^verbatim>\<open>evaluate\<close>
  still returns false.
\<close>

theorem identical_balance_then_evaluate:
  "fst (IdenticalObjects_balance identical_default [0, 1] mixed_scene 0) = None
   \<and> (let objects' = snd (IdenticalObjects_balance identical_default [0, 1] mixed_scene 0)
      in property_row identical_default (objects' ! 0)
           = property_row identical_default (objects' ! 1)
         \<and> IdenticalObjects_evaluate identical_default objects' = False)"
  by (simp add: IdenticalObjects_balance_def IdenticalObjects_evaluate_def unsqueeze0_def
      copy_cats_def set_cat_def property_row_def identical_default_def mixed_scene_def
      mk_obj_def)

subsection \<open>Colour above colour\<close>

text \<open>
  Claim C3.  The colour-above-colour relation evaluates to true exactly when some object
  of the above colour has a height at least that of every object of the below colour.  So
  it is true when the scene has an above-colour object and no below-colour object, and
  false when it has no above-colour object.
\<close>

theorem ColorAbove_evaluate_iff:
  "(ColorAbove_evaluate r objects \<longleftrightarrow>
      (\<exists>a \<in> set objects. cat a (color_field_name r) = above_color_tensor r \<and>
         (\<forall>b \<in> set objects. cat b (color_field_name r) = below_color_tensor r
              \<longrightarrow> coord b (y_field_name r) \<le> coord a (y_field_name r))))
   \<and> ((\<exists>a \<in> set objects. cat a (color_field_name r) = above_color_tensor r)
        \<and> (\<forall>b \<in> set objects. cat b (color_field_name r) \<noteq> below_color_tensor r)
        \<longrightarrow> ColorAbove_evaluate r objects)
   \<and> ((\<forall>a \<in> set objects. cat a (color_field_name r) \<noteq> above_color_tensor r)
        \<longrightarrow> \<not> ColorAbove_evaluate r objects)"
  by (auto simp add: ColorAbove_evaluate_def color_y_positions_def Let_def list_ex_iff
      list_all_iff filter_empty_conv)

theorem ColorAbove_evaluate_iff_witness:
  "ColorAbove_evaluate colorabove_default above_scene
   \<and> \<not> ColorAbove_evaluate colorabove_default below_scene
   \<and> ColorAbove_evaluate colorabove_default [mk_obj 3 5 [1, 0] [1, 0]]
   \<and> \<not> ColorAbove_evaluate colorabove_default [mk_obj 4 10 [0, 1] [1, 0]]"
  using ColorAbove_evaluate_iff [of colorabove_default above_scene]
    ColorAbove_evaluate_iff [of colorabove_default below_scene]
    ColorAbove_evaluate_iff [of colorabove_default "[mk_obj 3 5 [1, 0] [1, 0]]"]
    ColorAbove_evaluate_iff [of colorabove_default "[mk_obj 4 10 [0, 1] [1, 0]]"]
  by (simp add: colorabove_default_def above_scene_def below_scene_def mk_obj_def
      above_color_tensor_def below_color_tensor_def palette_def)

subsection \<open>The label check of the balancers\<close>

text \<open>
  Claim C5.  Every balancer raises an error when the current label is not 0, and the
  scene is then as it was: the check comes before any assignment.
\<close>

theorem balance_nonzero_label_raises:
  "current_label \<noteq> 0 \<Longrightarrow>
     OneDAdjacent_balance r1 perm1 u1 objects current_label = (Some ValueError, objects)
   \<and> MultipleDAdjacent_balance r2 perm2 slice_draw u2 objects current_label
       = (Some ValueError, objects)
   \<and> ColorAbove_balance r3 rnd3 objects current_label = Some (Some ValueError, objects)
   \<and> ObjectCount_balance r4 rnd4 objects current_label = (Some ValueError, objects)
   \<and> IdenticalObjects_balance r5 perm5 objects current_label = (Some ValueError, objects)"
  by (simp add: OneDAdjacent_balance_def MultipleDAdjacent_balance_def ColorAbove_balance_def
      ObjectCount_balance_def IdenticalObjects_balance_def)

theorem balance_nonzero_label_raises_witness:
  "(1::int) \<noteq> 0
   \<and> OneDAdjacent_balance oned_default [0, 1] (1 / 4) twin_scene 1
       = (Some ValueError, twin_scene)
   \<and> MultipleDAdjacent_balance multid_default [0, 1] 0 (1 / 4) twin_scene 1
       = (Some ValueError, twin_scene)
   \<and> ColorAbove_balance colorabove_default no_draws twin_scene 1
       = Some (Some ValueError, twin_scene)
   \<and> ObjectCount_balance objectcount_default no_count_draws twin_scene 1
       = (Some ValueError, twin_scene)
   \<and> IdenticalObjects_balance identical_default [0, 1] twin_scene 1
       = (Some ValueError, twin_scene)"
  using balance_nonzero_label_raises [where current_label = 1 and objects = twin_scene
      and ?r1.0 = oned_default and ?perm1.0 = "[0, 1]" and ?u1.0 = "1 / 4"
      and ?r2.0 = multid_default and ?perm2.0 = "[0, 1]" and slice_draw = 0 and ?u2.0 = "1 / 4"
      and ?r3.0 = colorabove_default and ?rnd3.0 = no_draws
      and ?r4.0 = objectcount_default and ?rnd4.0 = no_count_draws
      and ?r5.0 = identical_default and ?perm5.0 = "[0, 1]"]
  by simp

subsection \<open>The collision loop of the colour-above-colour balancer\<close>

text \<open>
  With two position fields the test of \<^verbatim>\<open>_object_in_position\<close> holds when all objects
  have the tentative \<open>x\<close>, or all objects have the tentative \<open>y\<close>: the reduction
  \<^verbatim>\<open>.all(dim=1)\<close> runs over the objects.
\<close>

lemma object_in_position_xy:
  "object_in_position [xn, yn] objects [x, y] \<longleftrightarrow>
     (\<forall>ob \<in> set objects. coord ob xn = x) \<or> (\<forall>ob \<in> set objects. coord ob yn = y)"
  by (auto simp add: object_in_position_def unsqueeze0_def all_dim1_def nonzero2_def
      nonzero_def len_squeeze2_def list_all_iff numeral_2_eq_2)

lemma collision_loop_unfold:
  "collision_loop r rnd objects i mb n =
     (if collides r rnd objects i mb (n + 1) then collision_loop r rnd objects i mb (n + 1)
      else Some (tentative_new_position r rnd objects i mb (n + 1)))"
  by (subst collision_loop.simps) (simp add: collides_def split: sum.splits prod.splits)

lemma collision_loop_returns_first:
  assumes "collision_loop r rnd objects i mb n = Some res"
  shows "\<exists>k>n. (\<forall>j. n < j \<and> j < k \<longrightarrow> collides r rnd objects i mb j)
            \<and> \<not> collides r rnd objects i mb k
            \<and> res = tentative_new_position r rnd objects i mb k"
proof (rule collision_loop.raw_induct [where P = "\<lambda>r rnd objects i mb n res.
    \<exists>k>n. (\<forall>j. n < j \<and> j < k \<longrightarrow> collides r rnd objects i mb j)
            \<and> \<not> collides r rnd objects i mb k
            \<and> res = tentative_new_position r rnd objects i mb k", OF _ assms], goal_cases)
  case (1 loop r rnd objects i mb n res)
  show ?case
  proof (cases "collides r rnd objects i mb (n + 1)")
    case True
    then obtain x y where t: "tentative_new_position r rnd objects i mb (n + 1) = Inr (x, y)"
      and c: "object_in_position (colorabove_position_field_names r) objects [x, y]"
      by (auto simp: collides_def split: sum.splits prod.splits)
    from 1(2) have "loop r rnd objects i mb (n + 1) = Some res" unfolding t using c by simp
    from 1(1) [OF this] obtain k where k: "k > n + 1"
      "\<forall>j. n + 1 < j \<and> j < k \<longrightarrow> collides r rnd objects i mb j"
      "\<not> collides r rnd objects i mb k" "res = tentative_new_position r rnd objects i mb k"
      by blast
    have "\<forall>j. n < j \<and> j < k \<longrightarrow> collides r rnd objects i mb j"
    proof (intro allI impI)
      fix j assume "n < j \<and> j < k"
      then have "j = n + 1 \<or> (n + 1 < j \<and> j < k)" by arith
      with True k(2) show "collides r rnd objects i mb j" by blast
    qed
    with k show ?thesis by (intro exI [of _ k]) simp
  next
    case False
    have "res = tentative_new_position r rnd objects i mb (n + 1)"
    proof (cases "tentative_new_position r rnd objects i mb (n + 1)")
      case (Inl e)
      with 1(2) show ?thesis by simp
    next
      case (Inr p)
      obtain x y where p: "p = (x, y)" by (cases p)
      from False Inr p have "\<not> object_in_position (colorabove_position_field_names r) objects [x, y]"
        by (simp add: collides_def)
      with 1(2) Inr p show ?thesis by simp
    qed
    moreover have "\<forall>j. n < j \<and> j < n + 1 \<longrightarrow> collides r rnd objects i mb j" by arith
    ultimately show ?thesis using False by (intro exI [of _ "n + 1"]) simp
  qed
qed

lemma collision_loop_first_returns:
  assumes "n < k" "\<forall>j. n < j \<and> j < k \<longrightarrow> collides r rnd objects i mb j"
    "\<not> collides r rnd objects i mb k"
  shows "collision_loop r rnd objects i mb n = Some (tentative_new_position r rnd objects i mb k)"
  using assms
proof (induction "k - n" arbitrary: n)
  case 0
  then show ?case by simp
next
  case (Suc d)
  show ?case
  proof (cases "k = n + 1")
    case True
    with Suc.prems(3) show ?thesis by (subst collision_loop_unfold) simp
  next
    case False
    with Suc.prems(1) have lt: "n + 1 < k" by arith
    then have c: "collides r rnd objects i mb (n + 1)" using Suc.prems(2) by simp
    have d: "d = k - (n + 1)" using Suc.hyps(2) by arith
    have "collision_loop r rnd objects i mb (n + 1)
            = Some (tentative_new_position r rnd objects i mb k)"
      using Suc.hyps(1) [OF d lt _ Suc.prems(3)] Suc.prems(2) by simp
    with c show ?thesis by (subst collision_loop_unfold) simp
  qed
qed

lemma collision_loop_never:
  assumes "\<forall>k>n. collides r rnd objects i mb k"
  shows "collision_loop r rnd objects i mb n = None"
proof (cases "collision_loop r rnd objects i mb n")
  case None then show ?thesis .
next
  case (Some res)
  from collision_loop_returns_first [OF this] assms show ?thesis by blast
qed

lemma top_row_collides:
  assumes "\<forall>ob \<in> set objects. coord ob ''y'' = 19"
  shows "collides colorabove_default rnd objects i 19 k"
proof -
  have y: "randint 19 (max_coord (y_field_gen colorabove_default) - 1) (y_draw rnd k) = Inr 19"
    by (simp add: randint_def colorabove_default_def grid20_def)
  have n: "colorabove_position_field_names colorabove_default = [''x'', ''y'']"
    by (simp add: colorabove_position_field_names_def colorabove_default_def)
  have "\<exists>v. (if int k > stuck_count_to_perturb_x colorabove_default
            then randint (min_coord (x_field_gen colorabove_default))
                   (max_coord (x_field_gen colorabove_default) - 1) (x_draw rnd k)
            else Inr (coord (objects ! i) (x_field_name colorabove_default))) = Inr v"
    by (simp add: randint_def colorabove_default_def grid20_def)
  then obtain v where v: "(if int k > stuck_count_to_perturb_x colorabove_default
            then randint (min_coord (x_field_gen colorabove_default))
                   (max_coord (x_field_gen colorabove_default) - 1) (x_draw rnd k)
            else Inr (coord (objects ! i) (x_field_name colorabove_default))) = Inr v" ..
  have "tentative_new_position colorabove_default rnd objects i 19 k = Inr (v, 19)"
    unfolding tentative_new_position_def v y by simp
  then show ?thesis
    unfolding collides_def n using assms by (simp add: object_in_position_xy)
qed

lemma stuck_scene_recolored:
  "\<exists>j. (j = 0 \<or> j = Suc 0)
      \<and> create_above_object colorabove_default rnd stuck_scene
          = Inr (set_cat stuck_scene j ''color'' [1, 0])"
proof -
  have a: "color_y_positions colorabove_default (above_color_tensor colorabove_default)
             stuck_scene = []"
    by (simp add: color_y_positions_def colorabove_default_def stuck_scene_def
        above_color_tensor_def palette_def mk_obj_def)
  have l: "length stuck_scene = 2" by (simp add: stuck_scene_def)
  have t: "above_color_tensor colorabove_default = [1, 0]"
    "color_field_name colorabove_default = ''color''"
    by (simp_all add: above_color_tensor_def colorabove_default_def palette_def)
  define j where "j = nat (recolor_draw rnd mod 2)"
  have "0 \<le> recolor_draw rnd mod 2" "recolor_draw rnd mod 2 < 2" by simp_all
  then have j: "j = 0 \<or> j = Suc 0" unfolding j_def by arith
  have "create_above_object colorabove_default rnd stuck_scene
          = Inr (set_cat stuck_scene j ''color'' [1, 0])"
    unfolding create_above_object_def a using j by (auto simp add: randint_def l t j_def)
  with j show ?thesis by blast
qed

lemma recolored_facts:
  assumes "j = 0 \<or> j = Suc 0"
  shows "\<forall>ob \<in> set (set_cat stuck_scene j ''color'' [1, 0]). coord ob ''y'' = 19"
    and "choose_above_object colorabove_default rnd (set_cat stuck_scene j ''color'' [1, 0]) = Inr j"
    and "max_below_position colorabove_default (set_cat stuck_scene j ''color'' [1, 0]) = 19"
  using assms
  by (elim disjE; simp add: set_cat_def stuck_scene_def mk_obj_def choose_above_object_def
      colorabove_default_def above_color_tensor_def below_color_tensor_def palette_def nonzero_def
      max_below_position_def color_y_positions_def)+

text \<open>On \<open>stuck_scene\<close> the balancer does not return, whatever is drawn.\<close>

lemma stuck_scene_never_returns:
  "ColorAbove_balance colorabove_default rnd stuck_scene 0 = None"
proof -
  obtain j where j: "j = 0 \<or> j = Suc 0"
    and c: "create_above_object colorabove_default rnd stuck_scene
             = Inr (set_cat stuck_scene j ''color'' [1, 0])"
    using stuck_scene_recolored by blast
  have "\<forall>k>0. collides colorabove_default rnd (set_cat stuck_scene j ''color'' [1, 0]) j 19 k"
    using top_row_collides [OF recolored_facts(1) [OF j]] by blast
  then have l: "collision_loop colorabove_default rnd (set_cat stuck_scene j ''color'' [1, 0]) j 19 0 = None"
    by (rule collision_loop_never)
  show ?thesis
    unfolding ColorAbove_balance_def c
    by (simp add: recolored_facts(2,3) [OF j] l)
qed

text \<open>
  Claim C6, as stated: the collision loop has a configurable maximum number of iterations
  and raises when it is exceeded, so that it iterates without bound on no scene.  On
  \<open>stuck_scene\<close> (label 0) the balancer recolours one object, the only height it can
  draw is that of the top row, where all objects are, and the test holds in every
  iteration, whatever \<open>x\<close> is drawn (\<open>stuck_scene_never_returns\<close>).  With \<open>stuck_draws\<close>
  every tentative position is moreover the place of an object of the scene.  The call
  neither returns nor raises.
\<close>

theorem balance_stuck_scene:
  "\<not> ColorAbove_evaluate colorabove_default stuck_scene
   \<and> (\<forall>k. min_coord (x_field_gen colorabove_default) \<le> x_draw stuck_draws k
          \<and> x_draw stuck_draws k \<le> max_coord (x_field_gen colorabove_default) - 1
          \<and> y_draw stuck_draws k = max_coord (y_field_gen colorabove_default) - 1)
   \<and> ColorAbove_balance colorabove_default stuck_draws stuck_scene 0 = None"
proof -
  have e: "\<not> ColorAbove_evaluate colorabove_default stuck_scene"
    by (simp add: ColorAbove_evaluate_def color_y_positions_def colorabove_default_def
        stuck_scene_def above_color_tensor_def palette_def mk_obj_def)
  have d: "\<forall>k. min_coord (x_field_gen colorabove_default) \<le> x_draw stuck_draws k
          \<and> x_draw stuck_draws k \<le> max_coord (x_field_gen colorabove_default) - 1
          \<and> y_draw stuck_draws k = max_coord (y_field_gen colorabove_default) - 1"
    by (simp add: colorabove_default_def grid20_def stuck_draws_def)
  have b: "ColorAbove_balance colorabove_default stuck_draws stuck_scene 0 = None"
    by (rule stuck_scene_never_returns)
  from e d b show ?thesis by blast
qed

lemma column_tentative:
  "tentative_new_position colorabove_default late_draws column_scene 0 10 k
     = Inr (if 10 < k then 7 else 3, 12)"
  by (simp add: tentative_new_position_def colorabove_default_def grid20_def late_draws_def
      randint_def column_scene_def mk_obj_def)

lemma column_collides:
  "collides colorabove_default late_draws column_scene 0 10 k \<longleftrightarrow> k \<le> 10"
  by (simp add: collides_def column_tentative colorabove_position_field_names_def
      object_in_position_xy) (simp add: colorabove_default_def column_scene_def mk_obj_def)

text \<open>
  Claim C6, amended.  The loop has no maximum number of iterations and no error of its
  own.  It ends in the first iteration that does not end with a collision: with the
  tentative position of that iteration, or with the \<^verbatim>\<open>ValueError\<close> of a \<^verbatim>\<open>randint\<close> on
  an empty range.  \<^verbatim>\<open>stuck_count_to_perturb_x\<close> is only the number of iterations after
  which \<open>x\<close> is drawn as well.  When every iteration ends with a collision the loop does
  not end.
\<close>

theorem collision_loop_unbounded:
  "(collision_loop r rnd objects i mb n = Some res \<longleftrightarrow>
      (\<exists>k>n. (\<forall>j. n < j \<and> j < k \<longrightarrow> collides r rnd objects i mb j)
            \<and> \<not> collides r rnd objects i mb k
            \<and> res = tentative_new_position r rnd objects i mb k))
   \<and> (collision_loop r rnd objects i mb n = None \<longleftrightarrow>
        (\<forall>k>n. collides r rnd objects i mb k))"
proof
  show iff: "collision_loop r rnd objects i mb n = Some res \<longleftrightarrow>
      (\<exists>k>n. (\<forall>j. n < j \<and> j < k \<longrightarrow> collides r rnd objects i mb j)
            \<and> \<not> collides r rnd objects i mb k
            \<and> res = tentative_new_position r rnd objects i mb k)" for res
    using collision_loop_returns_first collision_loop_first_returns by blast
  show "collision_loop r rnd objects i mb n = None \<longleftrightarrow>
        (\<forall>k>n. collides r rnd objects i mb k)"
  proof
    assume none: "collision_loop r rnd objects i mb n = None"
    show "\<forall>k>n. collides r rnd objects i mb k"
    proof (rule ccontr)
      assume "\<not> (\<forall>k>n. collides r rnd objects i mb k)"
      then have ex: "\<exists>k. n < k \<and> \<not> collides r rnd objects i mb k" by blast
      define k where "k = (LEAST k. n < k \<and> \<not> collides r rnd objects i mb k)"
      have k: "n < k \<and> \<not> collides r rnd objects i mb k"
        unfolding k_def using ex by (rule LeastI_ex)
      have "\<forall>j. n < j \<and> j < k \<longrightarrow> collides r rnd objects i mb j"
        unfolding k_def using not_less_Least by blast
      with k collision_loop_first_returns [of n k r rnd objects i mb] none show False by simp
    qed
  next
    assume all: "\<forall>k>n. collides r rnd objects i mb k"
    show "collision_loop r rnd objects i mb n = None"
    proof (cases "collision_loop r rnd objects i mb n")
      case None then show ?thesis .
    next
      case (Some res)
      from collision_loop_returns_first [OF this] all show ?thesis by blast
    qed
  qed
qed

theorem collision_loop_unbounded_witness:
  "collision_loop colorabove_default late_draws column_scene 0 10 0 = Some (Inr (7, 12))
   \<and> collides colorabove_default late_draws column_scene 0 10 10
   \<and> \<not> collides colorabove_default late_draws column_scene 0 10 11
   \<and> collision_loop colorabove_default stuck_draws stuck_scene1 0 19 0 = None"
proof -
  have "\<exists>k>0. (\<forall>j. 0 < j \<and> j < k \<longrightarrow> collides colorabove_default late_draws column_scene 0 10 j)
          \<and> \<not> collides colorabove_default late_draws column_scene 0 10 k
          \<and> Inr (7, 12) = tentative_new_position colorabove_default late_draws column_scene 0 10 k"
    by (rule exI [of _ 11]) (simp add: column_collides column_tentative)
  moreover have "\<forall>k>0. collides colorabove_default stuck_draws stuck_scene1 0 19 k"
    by (simp add: top_row_collides stuck_scene1_def mk_obj_def)
  ultimately show ?thesis
    using collision_loop_unbounded [of colorabove_default late_draws column_scene 0 10 0 "Inr (7, 12)"]
      collision_loop_unbounded [of colorabove_default stuck_draws stuck_scene1 0 19 0]
    by (simp add: column_collides)
qed

section \<open>Properties of the dataset builders\<close>

subsection \<open>Shuffling and slicing\<close>

lemma example_rng_ok: "rng_ok example_rng"
  by (auto simp: rng_ok_def example_rng_def is_randperm_def)

lemma py_take_drop: "py_take k xs @ py_drop k xs = xs"
  by (simp add: py_take_def py_drop_def)

lemma mset_randperm: "is_randperm n perm \<Longrightarrow> mset perm = mset [0..<n]"
  unfolding is_randperm_def
  by (metis distinct_upt set_eq_iff_mset_eq_distinct set_upt)

lemma mset_shuffled:
  assumes "is_randperm (length items) perm"
  shows "mset (map (\<lambda>i. items ! i) perm) = mset items"
proof -
  have "mset (map (\<lambda>i. items ! i) perm) = image_mset (\<lambda>i. items ! i) (mset perm)" by simp
  also have "\<dots> = image_mset (\<lambda>i. items ! i) (mset [0..<length items])"
    using mset_randperm [OF assms] by simp
  also have "\<dots> = mset (map (\<lambda>i. items ! i) [0..<length items])" by simp
  also have "\<dots> = mset items" by (simp add: map_nth)
  finally show ?thesis .
qed

lemma rng_shuffle_mset:
  assumes "rng_ok np" "rng_shuffle np g items = (items', g')"
  shows "mset items' = mset items"
proof -
  obtain perm where p: "rng_permutation np g (length items) = (perm, g')"
    and i: "items' = map (\<lambda>i. items ! i) perm"
    using assms(2) by (auto simp: rng_shuffle_def split: prod.splits)
  have "is_randperm (length items) (fst (rng_permutation np g (length items)))"
    using assms(1) by (simp add: rng_ok_def)
  then have "is_randperm (length items) perm" by (simp add: p)
  then show ?thesis unfolding i by (rule mset_shuffled)
qed

lemma mset_py_take_drop: "mset (py_take k xs) + mset (py_drop k xs) = mset xs"
  by (metis mset_append py_take_drop)

lemma split_train_test_partition:
  assumes "rng_ok np" "split_train_test np g items prop_train max_train_index = Inr ((tr, te), g')"
  shows "mset (tr @ te) = mset items"
proof -
  obtain items' k where s: "rng_shuffle np g items = (items', g')"
    and tr: "tr = py_take k items'" and te: "te = py_drop k items'"
    using assms(2) by (auto simp: split_train_test_def Let_def split: if_splits prod.splits)
  show ?thesis unfolding tr te using rng_shuffle_mset [OF assms(1) s]
    by (simp add: mset_py_take_drop)
qed

lemma split_train_test_ok:
  "prop_train \<noteq> None \<or> max_train_index \<noteq> None \<Longrightarrow>
   \<exists>tr te g'. split_train_test np g items prop_train max_train_index = Inr ((tr, te), g')"
  by (auto simp: split_train_test_def Let_def split: prod.splits)

lemma distinct_possible: "distinct (possible_reference_object_locations a)"
  by (simp add: possible_reference_object_locations_def Let_def py_range_def distinct_product)

lemma init_success:
  assumes "QuinnDatasetGenerator_init np a = Inr b"
  obtains tr te g' where
    "split_train_test np (default_rng np (arg_seed a)) (possible_reference_object_locations a)
       (arg_prop_train_reference_object_locations a) None = Inr ((tr, te), g')"
    "train_reference_object_locations b = tr" "test_reference_object_locations b = te"
  using assms by (auto simp: QuinnDatasetGenerator_init_def split: sum.splits)

lemma possible_small: "possible_reference_object_locations small_args =
   [(0, 0), (0, 1), (0, 2), (0, 3), (0, 4), (1, 0), (1, 1), (1, 2), (1, 3), (1, 4)]"
  by code_simp

lemma possible_narrow: "possible_reference_object_locations narrow_args = []"
  by code_simp

lemma shuffled_small: "rng_shuffle example_rng 33 (possible_reference_object_locations small_args)
   = ([(1, 4), (1, 3), (1, 2), (1, 1), (1, 0), (0, 4), (0, 3), (0, 2), (0, 1), (0, 0)], 34)"
  unfolding possible_small
  by (simp add: rng_shuffle_def example_rng_def upt_rec_numeral)

lemma split_small: "split_train_test example_rng 33 (possible_reference_object_locations small_args) (Some (8 / 10)) None
   = Inr (([(1, 4), (1, 3), (1, 2), (1, 1), (1, 0), (0, 4), (0, 3), (0, 2)], [(0, 1), (0, 0)]), 34)"
  unfolding split_train_test_def shuffled_small
  by (simp add: py_take_def py_drop_def possible_small)

lemma init_small: "QuinnDatasetGenerator_init example_rng small_args = Inr small_builder"
proof -
  have g: "default_rng example_rng (arg_seed small_args) = 33"
    by (simp add: example_rng_def small_args_def)
  have p: "arg_prop_train_reference_object_locations small_args = Some (8 / 10)"
    by (simp add: small_args_def)
  show ?thesis
    unfolding QuinnDatasetGenerator_init_def g p split_small
    by (simp add: small_args_def small_builder_def)
qed

lemma split_narrow: "split_train_test example_rng 33 (possible_reference_object_locations narrow_args) (Some (8 / 10)) None
   = Inr (([], []), 34)"
  unfolding possible_narrow
  by (simp add: split_train_test_def rng_shuffle_def example_rng_def py_take_def py_drop_def)

subsection \<open>The location partition\<close>

text \<open>
  Claim C7.  The train and test reference-object locations that construction produces are
  disjoint, and together they are the candidate locations.  The split draws from the
  generator that construction makes from the seed and from nothing else, so two
  constructions with the same seed, the same candidate locations and the same proportion
  give the same partition.
\<close>

theorem init_partition:
  assumes "rng_ok np" "QuinnDatasetGenerator_init np a = Inr (b :: 'o quinn_generator)"
  shows "set (train_reference_object_locations b) \<inter> set (test_reference_object_locations b) = {}
       \<and> set (train_reference_object_locations b) \<union> set (test_reference_object_locations b)
           = set (possible_reference_object_locations a)
       \<and> (\<forall>a' b'. arg_seed a' = arg_seed a
             \<and> possible_reference_object_locations a' = possible_reference_object_locations a
             \<and> arg_prop_train_reference_object_locations a'
                 = arg_prop_train_reference_object_locations a
             \<and> QuinnDatasetGenerator_init np a' = Inr (b' :: 'o quinn_generator)
           \<longrightarrow> train_reference_object_locations b' = train_reference_object_locations b
             \<and> test_reference_object_locations b' = test_reference_object_locations b)"
proof -
  from assms(2) obtain tr te g' where
    s: "split_train_test np (default_rng np (arg_seed a)) (possible_reference_object_locations a)
       (arg_prop_train_reference_object_locations a) None = Inr ((tr, te), g')"
    and tr: "train_reference_object_locations b = tr" and te: "test_reference_object_locations b = te"
    by (rule init_success)
  have m: "mset (tr @ te) = mset (possible_reference_object_locations a)"
    using split_train_test_partition [OF assms(1) s] .
  then have d: "distinct (tr @ te)"
    using distinct_possible [of a] by (metis mset_eq_imp_distinct_iff)
  have u: "set (tr @ te) = set (possible_reference_object_locations a)"
    using m by (rule mset_eq_setD)
  have same: "train_reference_object_locations b' = tr \<and> test_reference_object_locations b' = te"
    if "arg_seed a' = arg_seed a"
      "possible_reference_object_locations a' = possible_reference_object_locations a"
      "arg_prop_train_reference_object_locations a' = arg_prop_train_reference_object_locations a"
      "QuinnDatasetGenerator_init np a' = Inr b'" for a' and b' :: "'o quinn_generator"
    using that s by (auto elim!: init_success)
  show ?thesis using d u same by (auto simp: tr te)
qed

theorem init_partition_witness:
  "rng_ok example_rng
   \<and> QuinnDatasetGenerator_init example_rng small_args = Inr small_builder
   \<and> set (train_reference_object_locations small_builder)
       \<inter> set (test_reference_object_locations small_builder) = {}
   \<and> set (train_reference_object_locations small_builder)
       \<union> set (test_reference_object_locations small_builder)
       = set (possible_reference_object_locations small_args)
   \<and> train_reference_object_locations small_builder
       = [(1, 4), (1, 3), (1, 2), (1, 1), (1, 0), (0, 4), (0, 3), (0, 2)]
   \<and> test_reference_object_locations small_builder = [(0, 1), (0, 0)]"
proof -
  have t: "train_reference_object_locations small_builder
       = [(1, 4), (1, 3), (1, 2), (1, 1), (1, 0), (0, 4), (0, 3), (0, 2)]"
    "test_reference_object_locations small_builder = [(0, 1), (0, 0)]"
    by (simp_all add: small_builder_def)
  from init_partition [OF example_rng_ok init_small] example_rng_ok init_small t
  show ?thesis by blast
qed

subsection \<open>Construction on a canvas without legal places\<close>

text \<open>
  Claim C9, as stated: a configuration that leaves no legal reference-object place makes
  construction fail.  It does not: for \<open>narrow_args\<close> the candidate list is empty and
  construction returns \<open>narrow_builder\<close>.
\<close>

theorem init_narrow_cex: "possible_reference_object_locations narrow_args = []
   \<and> QuinnDatasetGenerator_init example_rng narrow_args = Inr narrow_builder"
proof -
  have g: "default_rng example_rng (arg_seed narrow_args) = 33"
    by (simp add: example_rng_def narrow_args_def)
  have p: "arg_prop_train_reference_object_locations narrow_args = Some (8 / 10)"
    by (simp add: narrow_args_def)
  have "QuinnDatasetGenerator_init example_rng narrow_args = Inr narrow_builder"
    unfolding QuinnDatasetGenerator_init_def g p split_narrow
    by (simp add: narrow_args_def narrow_builder_def)
  then show ?thesis by (simp add: possible_narrow)
qed

text \<open>
  Claim C9, amended.  Construction does not look at the candidate list: when the list is
  empty (and a train proportion is given) it succeeds, and the builder it returns has
  empty train and test location lists and no dataset yet.
\<close>

theorem init_empty_candidates:
  assumes "rng_ok np" "possible_reference_object_locations a = []"
    "arg_prop_train_reference_object_locations a \<noteq> None"
  shows "\<exists>b :: 'o quinn_generator. QuinnDatasetGenerator_init np a = Inr b
          \<and> train_reference_object_locations b = []
          \<and> test_reference_object_locations b = []
          \<and> train_dataset b = None \<and> validation_dataset b = None \<and> test_datasets b = None"
proof -
  obtain tr te g' where s: "split_train_test np (default_rng np (arg_seed a))
       (possible_reference_object_locations a)
       (arg_prop_train_reference_object_locations a) None = Inr ((tr, te), g')"
    using split_train_test_ok [of "arg_prop_train_reference_object_locations a" None] assms(3)
    by blast
  have "mset (tr @ te) = mset (possible_reference_object_locations a)"
    using split_train_test_partition [OF assms(1) s] .
  then have "tr = [] \<and> te = []" using assms(2) by simp
  then show ?thesis using s by (simp add: QuinnDatasetGenerator_init_def)
qed

theorem init_empty_candidates_witness:
  "rng_ok example_rng \<and> possible_reference_object_locations narrow_args = []
   \<and> arg_prop_train_reference_object_locations narrow_args \<noteq> None
   \<and> (\<exists>b :: nat quinn_generator. QuinnDatasetGenerator_init example_rng narrow_args = Inr b
          \<and> train_reference_object_locations b = []
          \<and> test_reference_object_locations b = []
          \<and> train_dataset b = None \<and> validation_dataset b = None \<and> test_datasets b = None)"
proof -
  have p: "arg_prop_train_reference_object_locations narrow_args \<noteq> None"
    by (simp add: narrow_args_def)
  from init_empty_candidates [OF example_rng_ok possible_narrow p] example_rng_ok possible_narrow p
  show ?thesis by blast
qed

subsection \<open>Cached datasets\<close>

lemma get_training_dataset_sets:
  assumes "get_training_dataset np m self = (Inr ds, self')"
  shows "train_dataset self' = Some ds"
proof (cases "train_dataset self")
  case (Some d)
  with assms show ?thesis by (simp add: get_training_dataset_def)
next
  case None
  obtain r self1 where c: "create_training_dataset m self = (r, self1)" by (cases "create_training_dataset m self")
  show ?thesis
  proof (cases r)
    case (Inl e)
    with assms None c show ?thesis by (simp add: get_training_dataset_def)
  next
    case (Inr d)
    show ?thesis
    proof (cases "prop_train_to_validation self1")
      case pn: None
      with assms None c Inr show ?thesis by (auto simp add: get_training_dataset_def)
    next
      case (Some p)
      obtain r2 self3 where sp: "split_dataset np m (self1\<lparr>train_dataset := Some d\<rparr>) d (Some (1 - p)) None = (r2, self3)"
        by (cases "split_dataset np m (self1\<lparr>train_dataset := Some d\<rparr>) d (Some (1 - p)) None")
      show ?thesis
        using assms None c Inr Some sp
        by (cases r2) (auto simp add: get_training_dataset_def Let_def split: if_splits)
    qed
  qed
qed

lemma get_test_datasets_sets:
  assumes "get_test_datasets m self = (Inr tds, self')"
  shows "test_datasets self' = Some tds"
proof (cases "test_datasets self")
  case (Some d)
  with assms show ?thesis by (simp add: get_test_datasets_def)
next
  case None
  obtain r self1 where c: "create_test_datasets m self = (r, self1)" by (cases "create_test_datasets m self")
  show ?thesis using assms None c by (cases r) (auto simp add: get_test_datasets_def)
qed

lemma split_example:
  "split_dataset example_rng example_methods
     (small_builder\<lparr>rng := 38, train_dataset := Some \<lparr>ds_objects = [34, 35, 36, 37], ds_labels = [0, 1, 0, 1]\<rparr>\<rparr>)
     \<lparr>ds_objects = [34, 35, 36, 37], ds_labels = [0, 1, 0, 1]\<rparr> (Some (9 / 10)) None
   = (Inr (cached_dataset, \<lparr>ds_objects = [34], ds_labels = [0]\<rparr>),
      small_builder\<lparr>rng := 39, train_dataset := Some \<lparr>ds_objects = [34, 35, 36, 37], ds_labels = [0, 1, 0, 1]\<rparr>\<rparr>)"
  by (simp add: split_dataset_def example_rng_def example_methods_def py_take_def py_drop_def
      index_select_def cached_dataset_def upt_rec_numeral)

lemma first_training:
  "get_training_dataset example_rng example_methods small_builder = (Inr cached_dataset, cached_builder)"
proof -
  have n: "train_dataset small_builder = None" "rng small_builder = 34"
    "prop_train_to_validation small_builder = Some (1 / 10)"
    by (simp_all add: small_builder_def)
  have c: "create_training_dataset example_methods small_builder
     = (Inr \<lparr>ds_objects = [34, 35, 36, 37], ds_labels = [0, 1, 0, 1]\<rparr>, small_builder\<lparr>rng := 38\<rparr>)"
    by (simp add: example_methods_def n)
  show ?thesis
    unfolding get_training_dataset_def n c
    by (simp add: n split_example cached_builder_def)
qed

lemma first_test:
  "get_test_datasets example_methods small_builder = (Inr cached_tests, tested_builder)"
proof -
  have n: "test_datasets small_builder = None" "rng small_builder = 34"
    by (simp_all add: small_builder_def)
  show ?thesis
    unfolding get_test_datasets_def n
    by (simp add: example_methods_def n cached_tests_def tested_builder_def)
qed

text \<open>
  Claim C8.  When the training-dataset accessor has returned a dataset, calling it again
  returns the same dataset and leaves the builder, its generator state included, as it
  is: nothing is sampled again.  The same holds for the test-datasets accessor.
\<close>

theorem accessors_cached:
  "(get_training_dataset np m self = (Inr ds, self')
      \<longrightarrow> get_training_dataset np m self' = (Inr ds, self'))
   \<and> (get_test_datasets m tself = (Inr tds, tself')
      \<longrightarrow> get_test_datasets m tself' = (Inr tds, tself'))"
proof (intro conjI impI)
  assume "get_training_dataset np m self = (Inr ds, self')"
  then have "train_dataset self' = Some ds" by (rule get_training_dataset_sets)
  then show "get_training_dataset np m self' = (Inr ds, self')"
    by (simp add: get_training_dataset_def)
next
  assume "get_test_datasets m tself = (Inr tds, tself')"
  then have "test_datasets tself' = Some tds" by (rule get_test_datasets_sets)
  then show "get_test_datasets m tself' = (Inr tds, tself')"
    by (simp add: get_test_datasets_def)
qed

theorem accessors_cached_witness:
  "get_training_dataset example_rng example_methods small_builder = (Inr cached_dataset, cached_builder)
   \<and> get_training_dataset example_rng example_methods cached_builder = (Inr cached_dataset, cached_builder)
   \<and> get_test_datasets example_methods small_builder = (Inr cached_tests, tested_builder)
   \<and> get_test_datasets example_methods tested_builder = (Inr cached_tests, tested_builder)"
  using accessors_cached [where np = example_rng and m = example_methods
      and self = small_builder and ds = cached_dataset and self' = cached_builder
      and tself = small_builder and tds = cached_tests and tself' = tested_builder]
    first_training first_test
  by blast

section \<open>Properties of the scene generators\<close>

subsection \<open>The post-hoc balanced generator\<close>

lemma rejection_loop_unfold:
  "rejection_loop evaluate sample b h pos pe ne pc nc =
     (if nc < h \<or> pc < h then
        (case ObjectGenerator_call evaluate sample pos b of
           Inl e \<Rightarrow> Some (Inl e)
         | Inr ((data, labels), pos') \<Rightarrow>
             rejection_loop evaluate sample b h pos'
               (if pc < h then pe @ [mask_select data labels] else pe)
               (if nc < h then ne @ [mask_select data (map Not labels)] else ne)
               (if pc < h then pc + positive_count_of labels else pc)
               (if nc < h then nc + (b - positive_count_of labels) else nc))
      else Some (Inr (pe, ne)))"
  by (rule rejection_loop.simps)

lemma rejection_loop_pools:
  assumes "rejection_loop evaluate sample b h pos pe ne pc nc = Some res"
  shows "b \<noteq> 0 \<longrightarrow> (\<exists>pe' ne'. res = Inr (pe', ne')
           \<and> (pc < h \<or> pe \<noteq> [] \<longrightarrow> pe' \<noteq> []) \<and> (nc < h \<or> ne \<noteq> [] \<longrightarrow> ne' \<noteq> []))"
proof (rule rejection_loop.raw_induct [where P = "\<lambda>evaluate sample b h pos pe ne pc nc res.
    b \<noteq> 0 \<longrightarrow> (\<exists>pe' ne'. res = Inr (pe', ne')
           \<and> (pc < h \<or> pe \<noteq> [] \<longrightarrow> pe' \<noteq> []) \<and> (nc < h \<or> ne \<noteq> [] \<longrightarrow> ne' \<noteq> []))", OF _ assms], goal_cases)
  case (1 loop evaluate sample b h pos pe ne pc nc res)
  show ?case
  proof (intro impI)
    assume b: "b \<noteq> 0"
    show "\<exists>pe' ne'. res = Inr (pe', ne')
           \<and> (pc < h \<or> pe \<noteq> [] \<longrightarrow> pe' \<noteq> []) \<and> (nc < h \<or> ne \<noteq> [] \<longrightarrow> ne' \<noteq> [])"
    proof (cases "nc < h \<or> pc < h")
      case False
      with 1(2) show ?thesis by auto
    next
      case True
      obtain data labels pos' where c: "ObjectGenerator_call evaluate sample pos b = Inr ((data, labels), pos')"
        using b by (auto simp: ObjectGenerator_call_def Let_def)
      from 1(2) True c have "loop evaluate sample b h pos'
               (if pc < h then pe @ [mask_select data labels] else pe)
               (if nc < h then ne @ [mask_select data (map Not labels)] else ne)
               (if pc < h then pc + positive_count_of labels else pc)
               (if nc < h then nc + (b - positive_count_of labels) else nc) = Some res"
        by simp
      from 1(1) [OF this] b show ?thesis by (auto split: if_splits)
    qed
  qed
qed

lemma index_select_out_of_range:
  "i \<in> set idx \<Longrightarrow> length t \<le> i \<Longrightarrow> index_select t idx = Inl IndexError"
proof -
  assume "i \<in> set idx" "length t \<le> i"
  then have "\<not> list_all (\<lambda>i. i < length t) idx"
    unfolding list_all_iff using leD by blast
  then show ?thesis by (simp add: index_select_def)
qed

lemma permute_batch_odd:
  assumes "pe \<noteq> []" "ne \<noteq> []" "2 * h < b" "is_randperm b perm"
  shows "permute_batch h perm pe ne = Inl IndexError"
proof -
  have "b - 1 \<in> set perm" using assms(3,4) by (auto simp: is_randperm_def)
  moreover have "length (take h (concat pe) @ take h (concat ne)) \<le> b - 1"
    using assms(3) by simp
  ultimately have "index_select (take h (concat pe) @ take h (concat ne)) perm = Inl IndexError"
    by (rule index_select_out_of_range)
  then show ?thesis using assms(1,2) by (simp add: permute_batch_def torch_cat_def)
qed

lemma evaluate_alternating:
  "OneDAdjacent_evaluate oned_default (alternating_sample k) = even k"
  by (simp add: OneDAdjacent_evaluate_def oned_default_def alternating_sample_def mk_obj_def)

lemma call_alternating:
  "0 < b \<Longrightarrow> ObjectGenerator_call (OneDAdjacent_evaluate oned_default) alternating_sample pos b
     = Inr ((map alternating_sample [pos..<pos + b], map even [pos..<pos + b]), pos + b)"
  by (simp add: ObjectGenerator_call_def evaluate_alternating)

lemma upt_small: "[0..<3] = [0, 1, 2]" "[0..<2] = [0, 1]"
  by code_simp+

lemma loop_alternating_3:
  "rejection_loop (OneDAdjacent_evaluate oned_default) alternating_sample 3 (Suc 0) 0 [] [] 0 0
     = Some (Inr ([[alternating_sample 0, alternating_sample 2]], [[alternating_sample 1]]))"
  apply (subst rejection_loop_unfold)
  apply (simp add: call_alternating upt_small mask_select_def positive_count_of_def)
  apply (subst rejection_loop_unfold)
  apply simp
  done

lemma loop_alternating_2:
  "rejection_loop (OneDAdjacent_evaluate oned_default) alternating_sample 2 (Suc 0) 0 [] [] 0 0
     = Some (Inr ([[alternating_sample 0]], [[alternating_sample 1]]))"
  apply (subst rejection_loop_unfold)
  apply (simp add: call_alternating upt_small mask_select_def positive_count_of_def)
  apply (subst rejection_loop_unfold)
  apply simp
  done

lemma call_3: "BalancedBatch_call (OneDAdjacent_evaluate oned_default) alternating_sample [2, 0, 1] 3
      = Some (Inl IndexError)"
  by (simp add: BalancedBatch_call_def loop_alternating_3 permute_batch_def torch_cat_def index_select_def)

lemma call_2: "BalancedBatch_call (OneDAdjacent_evaluate oned_default) alternating_sample [1, 0] 2
      = Some (Inr ([alternating_sample 1, alternating_sample 0], [False, True]))"
  by (simp add: BalancedBatch_call_def loop_alternating_2 permute_batch_def torch_cat_def index_select_def)

text \<open>
  Claim C10.  For an odd batch size of at least 3 the post-hoc balanced generator returns
  no batch: the two pools are cut to \<open>batch_size div 2\<close> scenes each, the permutation of
  \<open>batch_size\<close> indices has an index beyond the \<open>2 * (batch_size div 2)\<close> rows, and the
  call ends with \<^verbatim>\<open>IndexError\<close> unless the rejection loop never ends.  So a batch is
  returned only for an even batch size, or for batch size 1.
\<close>

theorem BalancedBatch_call_odd:
  "(odd batch_size \<and> 3 \<le> batch_size \<and> is_randperm batch_size perm
      \<longrightarrow> BalancedBatch_call evaluate sample perm batch_size = None
        \<or> BalancedBatch_call evaluate sample perm batch_size = Some (Inl IndexError))
   \<and> (is_randperm batch_size perm
        \<and> BalancedBatch_call evaluate sample perm batch_size = Some (Inr batch)
      \<longrightarrow> even batch_size \<or> batch_size = 1)"
proof -
  have odd_case: "BalancedBatch_call evaluate sample perm batch_size = None
        \<or> BalancedBatch_call evaluate sample perm batch_size = Some (Inl IndexError)"
    if o: "odd batch_size" and b: "3 \<le> batch_size" and p: "is_randperm batch_size perm"
  proof (cases "rejection_loop evaluate sample batch_size (batch_size div 2) 0 [] [] 0 0")
    case None
    with b show ?thesis by (simp add: BalancedBatch_call_def)
  next
    case (Some res)
    have h: "0 < batch_size div 2" using b by simp
    from rejection_loop_pools [OF Some] b h obtain pe' ne' where
      r: "res = Inr (pe', ne')" and ne: "pe' \<noteq> []" "ne' \<noteq> []" by auto
    have "2 * (batch_size div 2) < batch_size" using o by presburger
    from permute_batch_odd [OF ne this p] Some r b show ?thesis
      by (simp add: BalancedBatch_call_def)
  qed
  have "even batch_size \<or> batch_size = 1"
    if p: "is_randperm batch_size perm"
      and r: "BalancedBatch_call evaluate sample perm batch_size = Some (Inr batch)"
  proof (rule ccontr)
    assume "\<not> (even batch_size \<or> batch_size = 1)"
    then have "odd batch_size" "3 \<le> batch_size" by presburger+
    from odd_case [OF this p] r show False by simp
  qed
  with odd_case show ?thesis by blast
qed

theorem BalancedBatch_call_odd_witness:
  "odd (3::nat) \<and> (3::nat) \<le> 3 \<and> is_randperm 3 [2, 0, 1]
   \<and> BalancedBatch_call (OneDAdjacent_evaluate oned_default) alternating_sample [2, 0, 1] 3
      = Some (Inl IndexError)
   \<and> is_randperm 2 [1, 0]
   \<and> BalancedBatch_call (OneDAdjacent_evaluate oned_default) alternating_sample [1, 0] 2
      = Some (Inr ([alternating_sample 1, alternating_sample 0], [False, True]))
   \<and> even (2::nat)"
proof -
  have p: "is_randperm 3 [2, 0, 1]" "is_randperm 2 [1, 0]"
    by (auto simp: is_randperm_def)
  from BalancedBatch_call_odd [of 3 "[2, 0, 1]" "OneDAdjacent_evaluate oned_default" alternating_sample]
    BalancedBatch_call_odd [of 2 "[1, 0]" "OneDAdjacent_evaluate oned_default" alternating_sample
      "([alternating_sample 1, alternating_sample 0], [False, True])"]
    p call_3 call_2
  show ?thesis by simp
qed

subsection \<open>The directed balanced generator\<close>

declare resample_loop.simps [simp del]

lemma length_scatter [simp]: "length (scatter data indices vs) = length data"
proof -
  have "length (fold (\<lambda>(i, v) d. d[i := v]) ps data) = length data" for ps :: "(nat \<times> 'a) list"
    by (induction ps arbitrary: data) (auto split: prod.splits)
  then show ?thesis by (simp add: scatter_def)
qed

lemma length_call:
  "ObjectGenerator_call evaluate sample pos b = Inr ((data, labels), pos')
     \<Longrightarrow> length data = b \<and> length labels = b"
  by (auto simp: ObjectGenerator_call_def Let_def split: if_splits)

lemma resample_loop_exit:
  "resample_loop g evaluate sample h d data labels pos = Inr st \<Longrightarrow>
     length (labels_of st) = length labels
     \<and> positive_count st = positive_count_of (labels_of st)
     \<and> (returned st \<longrightarrow> positive_count_of (labels_of st) = h)
     \<and> (\<not> returned st \<longrightarrow> positive_count_of (labels_of st) \<noteq> h
           \<and> ((positive_count_of (labels_of st) > h) \<noteq> negative_to_positive g))
     \<and> d < recursion_depth_of st
     \<and> recursion_depth_of st \<le> max_recursion_depth g"
proof (induction g evaluate sample h d data labels pos rule: resample_loop.induct)
  case (1 g evaluate sample h d data labels pos)
  define idx where "idx = nonzero (map (\<lambda>l. l = negative_to_positive g) labels)"
  from "1.prems" have d: "\<not> d + 1 > max_recursion_depth g" and l1: "length idx \<noteq> 1"
    by (auto simp: resample_loop.simps [of g evaluate sample h d data labels pos] idx_def Let_def
        split: if_splits)
  from "1.prems" d l1 obtain rd rl pos' where
    c: "ObjectGenerator_call evaluate sample pos (length idx) = Inr ((rd, rl), pos')"
    by (auto simp: resample_loop.simps [of g evaluate sample h d data labels pos] idx_def Let_def
        split: if_splits sum.splits)
  define data' where "data' = scatter data idx rd"
  define labels' where "labels' = scatter labels idx rl"
  have u: "resample_loop g evaluate sample h d data labels pos =
     (if positive_count_of labels' = h
      then Inr \<lparr>returned = True, data_of = data', labels_of = labels',
                positive_count = positive_count_of labels',
                recursion_depth_of = d + 1, sample_pos = pos'\<rparr>
      else if (positive_count_of labels' > h) = negative_to_positive g
      then resample_loop g evaluate sample h (d + 1) data' labels' pos'
      else Inr \<lparr>returned = False, data_of = data', labels_of = labels',
                positive_count = positive_count_of labels',
                recursion_depth_of = d + 1, sample_pos = pos'\<rparr>)"
    using d l1 c
    by (subst resample_loop.simps) (simp add: idx_def [symmetric] Let_def data'_def labels'_def)
  show ?case
  proof (cases "positive_count_of labels' = h")
    case True
    with u "1.prems" d show ?thesis by (auto simp: labels'_def)
  next
    case False
    show ?thesis
    proof (cases "(positive_count_of labels' > h) = negative_to_positive g")
      case True
      with u False "1.prems" have r: "resample_loop g evaluate sample h (d + 1) data' labels' pos' = Inr st"
        by simp
      have "length (labels_of st) = length labels'
     \<and> positive_count st = positive_count_of (labels_of st)
     \<and> (returned st \<longrightarrow> positive_count_of (labels_of st) = h)
     \<and> (\<not> returned st \<longrightarrow> positive_count_of (labels_of st) \<noteq> h
           \<and> ((positive_count_of (labels_of st) > h) \<noteq> negative_to_positive g))
     \<and> d + 1 < recursion_depth_of st
     \<and> recursion_depth_of st \<le> max_recursion_depth g"
        using "1.IH" [OF d idx_def l1 c refl refl data'_def labels'_def False True r] .
      then show ?thesis by (simp add: labels'_def)
    next
      case f2: False
      with u False "1.prems" d show ?thesis by (auto simp: labels'_def)
    qed
  qed
qed


lemma balance_targets_labels:
  "balance_targets g balance k target_indices data labels = Some (Inr (data', labels'))
     \<Longrightarrow> labels' = fold (\<lambda>i l. l[i := negative_to_positive g]) target_indices labels"
proof (induction target_indices arbitrary: k data labels)
  case Nil
  then show ?case by simp
next
  case (Cons index target_indices)
  from Cons.prems obtain objects where
    "balance_targets g balance (k + 1) target_indices (data[index := objects])
       (labels[index := negative_to_positive g]) = Some (Inr (data', labels'))"
    by (auto split: option.splits prod.splits)
  from Cons.IH [OF this] show ?case by simp
qed

lemma positive_count_update:
  assumes "i < length labels" "\<not> labels ! i"
  shows "positive_count_of (labels[i := True]) = positive_count_of labels + 1"
proof -
  define xs where "xs = take i labels"
  define ys where "ys = drop (Suc i) labels"
  have "labels = xs @ labels ! i # ys"
    unfolding xs_def ys_def using assms(1) by (rule id_take_nth_drop)
  then have l: "labels = xs @ False # ys" using assms(2) by simp
  have u: "labels[i := True] = xs @ True # ys"
    unfolding xs_def ys_def using assms(1) by (rule upd_conv_take_nth_drop)
  have "positive_count_of (xs @ True # ys) = positive_count_of (xs @ False # ys) + 1"
    by (simp add: positive_count_of_def)
  then show ?thesis unfolding u using l by simp
qed

lemma positive_count_fold:
  "distinct target_indices \<Longrightarrow> \<forall>i \<in> set target_indices. i < length labels \<and> \<not> labels ! i
     \<Longrightarrow> positive_count_of (fold (\<lambda>i l. l[i := True]) target_indices labels)
           = positive_count_of labels + length target_indices"
proof (induction target_indices arbitrary: labels)
  case Nil
  then show ?case by simp
next
  case (Cons i target_indices)
  have i: "i < length labels" "\<not> labels ! i" using Cons.prems(2) by simp_all
  have "\<forall>j \<in> set target_indices. j < length (labels[i := True]) \<and> \<not> labels[i := True] ! j"
    using Cons.prems by (auto simp: nth_list_update)
  with Cons.IH [of "labels[i := True]"] Cons.prems(1)
  have "positive_count_of (fold (\<lambda>i l. l[i := True]) target_indices (labels[i := True]))
          = positive_count_of (labels[i := True]) + length target_indices" by simp
  then show ?case using positive_count_update [OF i] by simp
qed

lemma nonzero_props:
  "distinct (nonzero bs)" "\<forall>i \<in> set (nonzero bs). i < length bs \<and> bs ! i"
  by (auto simp: nonzero_def)

lemma length_nonzero: "length (nonzero (map P labels)) = length (filter P labels)"
proof -
  have "filter P labels = filter P (map (\<lambda>i. labels ! i) [0..<length labels])"
    by (simp add: map_nth)
  also have "\<dots> = map (\<lambda>i. labels ! i) (filter (P \<circ> (\<lambda>i. labels ! i)) [0..<length labels])"
    by (simp add: filter_map)
  finally have "length (filter P labels) = length (filter (P \<circ> (\<lambda>i. labels ! i)) [0..<length labels])"
    by simp
  also have "filter (P \<circ> (\<lambda>i. labels ! i)) [0..<length labels] = nonzero (map P labels)"
    unfolding nonzero_def by (rule filter_cong) auto
  finally show ?thesis by simp
qed

lemma negatives_count:
  "length (nonzero (map (\<lambda>l. l = False) labels)) + positive_count_of labels = length labels"
proof -
  have "length (filter (\<lambda>l. l = False) labels) + length (filter id labels) = length labels"
    using sum_length_filter_compl [of id labels] by (simp add: add.commute)
  then show ?thesis by (simp add: length_nonzero positive_count_of_def)
qed

lemma index_select_take_perm:
  assumes "is_randperm (length idx) perm" "distinct idx"
  shows "\<exists>ts. index_select idx (take m perm) = Inr ts \<and> distinct ts \<and> set ts \<subseteq> set idx
            \<and> length ts = min m (length idx)"
proof -
  have d: "distinct perm" and s: "set perm = {0..<length idx}"
    using assms(1) by (simp_all add: is_randperm_def)
  have l: "length perm = length idx"
    using d s by (metis card_atLeastLessThan diff_zero distinct_card)
  have r: "\<forall>i \<in> set (take m perm). i < length idx"
    using s by (auto dest: in_set_takeD)
  then have "index_select idx (take m perm) = Inr (map (\<lambda>i. idx ! i) (take m perm))"
    by (simp add: index_select_def list_all_iff)
  moreover have "distinct (map (\<lambda>i. idx ! i) (take m perm))"
    using d r assms(2) by (auto simp: distinct_map inj_on_def nth_eq_iff_index_eq)
  moreover have "set (map (\<lambda>i. idx ! i) (take m perm)) \<subseteq> set idx"
    using r by auto
  ultimately show ?thesis using l by simp
qed


lemma modify_phase:
  assumes n2p: "negative_to_positive g" and rp: "\<forall>n. is_randperm n (randperm n)"
    and pc: "positive_count_of labels < h" and hb: "h \<le> length labels"
    and sel: "index_select (nonzero (map (\<lambda>l. l = (\<not> negative_to_positive g)) labels))
                (take (nat \<bar>int (positive_count_of labels) - int h\<bar>)
                   (randperm (length (nonzero (map (\<lambda>l. l = (\<not> negative_to_positive g)) labels)))))
              = Inr target_indices"
    and bt: "balance_targets g balance 0 target_indices data labels = Some (Inr (data', labels'))"
  shows "positive_count_of labels' = h"
proof -
  define idx where "idx = nonzero (map (\<lambda>l. l = False) labels)"
  define m where "m = nat \<bar>int (positive_count_of labels) - int h\<bar>"
  have m: "m = h - positive_count_of labels" using pc by (simp add: m_def)
  have li: "length idx + positive_count_of labels = length labels"
    unfolding idx_def by (rule negatives_count)
  have sel': "index_select idx (take m (randperm (length idx))) = Inr target_indices"
    using sel n2p by (simp add: idx_def m_def)
  have "is_randperm (length idx) (randperm (length idx))" using rp by simp
  moreover have "distinct idx" unfolding idx_def by (rule nonzero_props)
  ultimately obtain ts where ts: "index_select idx (take m (randperm (length idx))) = Inr ts"
    "distinct ts" "set ts \<subseteq> set idx" "length ts = min m (length idx)"
    using index_select_take_perm by blast
  from ts(1) sel' have e: "ts = target_indices" by simp
  have len: "length target_indices = h - positive_count_of labels"
    using ts(4) e m li hb by simp
  have neg: "\<forall>i \<in> set target_indices. i < length labels \<and> \<not> labels ! i"
  proof
    fix i assume "i \<in> set target_indices"
    then have "i \<in> set idx" using ts(3) e by blast
    then show "i < length labels \<and> \<not> labels ! i"
      using nonzero_props(2) [of "map (\<lambda>l. l = False) labels"] by (auto simp: idx_def)
  qed
  have "labels' = fold (\<lambda>i l. l[i := True]) target_indices labels"
    using balance_targets_labels [OF bt] n2p by simp
  then have "positive_count_of labels' = positive_count_of labels + length target_indices"
    using positive_count_fold [OF _ neg] ts(2) e by simp
  then show ?thesis using len pc by simp
qed

lemma resample_loop_depth:
  "max_recursion_depth g \<le> d \<Longrightarrow>
     resample_loop g evaluate sample h d data labels pos = Inl ValueError"
  by (subst resample_loop.simps) simp

lemma SmartBalanced_call_count:
  assumes b: "2 \<le> batch_size" and n2p: "negative_to_positive g"
    and rp: "\<forall>n. is_randperm n (randperm n)"
    and r: "SmartBalanced_call g evaluate balance sample randperm batch_size recursion_depth
              = Some (Inr (data, labels))"
  shows "positive_count_of labels = batch_size div 2"
proof -
  define h where "h = batch_size div 2"
  have b1: "batch_size \<noteq> 1" using b by simp
  from r b1 have dm: "\<not> recursion_depth > max_recursion_depth g"
    by (auto simp: SmartBalanced_call_def split: if_splits)
  obtain data0 labels0 pos0 where
    c: "ObjectGenerator_call evaluate sample 0 batch_size = Inr ((data0, labels0), pos0)"
    using b by (auto simp: ObjectGenerator_call_def Let_def)
  have l0: "length labels0 = batch_size" using length_call [OF c] by simp
  show ?thesis
  proof (cases "positive_count_of labels0 = h")
    case True
    with r b1 dm c show ?thesis by (simp add: SmartBalanced_call_def h_def)
  next
    case False
    define lp where "lp = (if (positive_count_of labels0 > h) = negative_to_positive g
                         then resample_loop g evaluate sample h recursion_depth data0 labels0 pos0
                         else Inr \<lparr>returned = False, data_of = data0, labels_of = labels0,
                                   positive_count = positive_count_of labels0,
                                   recursion_depth_of = recursion_depth, sample_pos = pos0\<rparr>)"
    have u: "SmartBalanced_call g evaluate balance sample randperm batch_size recursion_depth =
      (case lp of
         Inl e \<Rightarrow> Some (Inl e)
       | Inr st \<Rightarrow>
           if returned st then Some (Inr (data_of st, labels_of st))
           else
             let indices_to_modify =
                   nonzero (map (\<lambda>l. l = (\<not> negative_to_positive g)) (labels_of st))
             in if length indices_to_modify = 1 then Some (Inl IndexError)
                else
                  let num_samples_to_modify = nat \<bar>int (positive_count st) - int h\<bar>
                  in (case index_select indices_to_modify
                             (take num_samples_to_modify (randperm (length indices_to_modify))) of
                        Inl e \<Rightarrow> Some (Inl e)
                      | Inr target_indices \<Rightarrow>
                          balance_targets g balance 0 target_indices (data_of st) (labels_of st)))"
      using b1 dm c False by (simp add: SmartBalanced_call_def h_def [symmetric] lp_def)
    from r u obtain st where st: "lp = Inr st" by (cases lp) auto
    have facts: "length (labels_of st) = batch_size
       \<and> positive_count st = positive_count_of (labels_of st)
       \<and> (returned st \<longrightarrow> positive_count_of (labels_of st) = h)
       \<and> (\<not> returned st \<longrightarrow> positive_count_of (labels_of st) < h)"
    proof (cases "(positive_count_of labels0 > h) = negative_to_positive g")
      case True
      with st have "resample_loop g evaluate sample h recursion_depth data0 labels0 pos0 = Inr st"
        by (simp add: lp_def)
      from resample_loop_exit [OF this] n2p l0 show ?thesis by auto
    next
      case f: False
      with st have "st = \<lparr>returned = False, data_of = data0, labels_of = labels0,
                                   positive_count = positive_count_of labels0,
                                   recursion_depth_of = recursion_depth, sample_pos = pos0\<rparr>"
        by (simp add: lp_def)
      with f False n2p l0 show ?thesis by auto
    qed
    show ?thesis
    proof (cases "returned st")
      case True
      with r u st facts show ?thesis by (simp add: h_def)
    next
      case nr: False
      with facts have pc: "positive_count_of (labels_of st) < h"
        and pe: "positive_count st = positive_count_of (labels_of st)"
        and ll: "length (labels_of st) = batch_size" by simp_all
      from r u st nr obtain target_indices where
        sel: "index_select (nonzero (map (\<lambda>l. l = (\<not> negative_to_positive g)) (labels_of st)))
                (take (nat \<bar>int (positive_count_of (labels_of st)) - int h\<bar>)
                   (randperm (length (nonzero (map (\<lambda>l. l = (\<not> negative_to_positive g)) (labels_of st))))))
              = Inr target_indices"
        and bt: "balance_targets g balance 0 target_indices (data_of st) (labels_of st)
                   = Some (Inr (data, labels))"
        by (auto simp: Let_def pe split: if_splits sum.splits)
      have hb: "h \<le> length (labels_of st)" using ll by (simp add: h_def)
      from modify_phase [OF n2p rp pc hb sel bt] show ?thesis by (simp add: h_def)
    qed
  qed
qed

lemma reversed_randperm: "\<forall>n. is_randperm n (reversed n)"
  by (auto simp: is_randperm_def reversed_def)

lemma upt_small4: "[0..<4] = [0, 1, 2, 3]" "[0..<2] = [0, 1]" "[2..<4] = [2, 3]" "[4..<6] = [4, 5]"
  by code_simp+

lemma example_balance_ok:
  "\<exists>objects'. example_balance k (alternating_sample j) 0 = Some (None, objects')"
  by (simp add: example_balance_def OneDAdjacent_balance_def alternating_sample_def Let_def)

lemma negative_batch:
  "\<exists>data. SmartBalanced_call smart_example (OneDAdjacent_evaluate oned_default) example_balance
      (\<lambda>k. alternating_sample (2 * k + 1)) reversed 4 0 = Some (Inr (data, [False, False, True, True]))"
proof -
  obtain o3 where o3: "example_balance 0 (alternating_sample 7) 0 = Some (None, o3)"
    using example_balance_ok by blast
  obtain o2 where o2: "example_balance (Suc 0) (alternating_sample 5) 0 = Some (None, o2)"
    using example_balance_ok by blast
  show ?thesis
    by (simp add: SmartBalanced_call_def ObjectGenerator_call_def evaluate_alternating upt_small4
        positive_count_of_def smart_example_def nonzero_def reversed_def index_select_def o3 o2)
qed

lemma positive_batch:
  "SmartBalanced_call smart_example (OneDAdjacent_evaluate oned_default) example_balance
      (\<lambda>k. alternating_sample (2 * k)) reversed 2 0 = Some (Inl ValueError)"
  apply (simp add: SmartBalanced_call_def ObjectGenerator_call_def evaluate_alternating upt_small4
        positive_count_of_def smart_example_def)
  apply (subst resample_loop.simps)
  apply (simp add: nonzero_def ObjectGenerator_call_def evaluate_alternating upt_small4 scatter_def
       positive_count_of_def)
  apply (subst resample_loop.simps)
  apply simp
  done

text \<open>
  Claim C4.  The directed balanced generator that converts negatives to positives, asked
  for a batch of at least two scenes, returns only batches whose labels have exactly
  \<open>batch_size div 2\<close> positives.  A correction round that would take the depth counter
  beyond the maximum recursion depth raises \<^verbatim>\<open>ValueError\<close>: the call raises it when it is
  entered beyond the maximum, the resampling loop raises it when it starts a round at the
  maximum, the loop never ends normally beyond the maximum, and the call passes the
  error of the loop on instead of returning a batch.
\<close>

theorem SmartBalanced_call_balanced:
  assumes "2 \<le> batch_size" "negative_to_positive g" "\<forall>n. is_randperm n (randperm n)"
  shows
    "(SmartBalanced_call g evaluate balance sample randperm batch_size recursion_depth
        = Some (Inr (data, labels))
      \<longrightarrow> positive_count_of labels = batch_size div 2)
   \<and> (max_recursion_depth g < recursion_depth
      \<longrightarrow> SmartBalanced_call g evaluate balance sample randperm batch_size recursion_depth
          = Some (Inl ValueError))
   \<and> (max_recursion_depth g \<le> d
      \<longrightarrow> resample_loop g evaluate sample h d data1 labels1 pos1 = Inl ValueError)
   \<and> (resample_loop g evaluate sample h d data1 labels1 pos1 = Inr st
      \<longrightarrow> recursion_depth_of st \<le> max_recursion_depth g)
   \<and> (ObjectGenerator_call evaluate sample 0 batch_size = Inr ((data0, labels0), pos0)
        \<and> positive_count_of labels0 > batch_size div 2
        \<and> resample_loop g evaluate sample (batch_size div 2) recursion_depth data0 labels0 pos0
            = Inl e
      \<longrightarrow> SmartBalanced_call g evaluate balance sample randperm batch_size recursion_depth
          = Some (Inl e))"
proof (intro conjI impI)
  assume "SmartBalanced_call g evaluate balance sample randperm batch_size recursion_depth
        = Some (Inr (data, labels))"
  with assms show "positive_count_of labels = batch_size div 2"
    by (rule SmartBalanced_call_count)
next
  assume "max_recursion_depth g < recursion_depth"
  with assms(1) show "SmartBalanced_call g evaluate balance sample randperm batch_size recursion_depth
          = Some (Inl ValueError)"
    by (simp add: SmartBalanced_call_def)
next
  assume "max_recursion_depth g \<le> d"
  then show "resample_loop g evaluate sample h d data1 labels1 pos1 = Inl ValueError"
    by (rule resample_loop_depth)
next
  assume "resample_loop g evaluate sample h d data1 labels1 pos1 = Inr st"
  from resample_loop_exit [OF this] show "recursion_depth_of st \<le> max_recursion_depth g"
    by simp
next
  assume a: "ObjectGenerator_call evaluate sample 0 batch_size = Inr ((data0, labels0), pos0)
        \<and> positive_count_of labels0 > batch_size div 2
        \<and> resample_loop g evaluate sample (batch_size div 2) recursion_depth data0 labels0 pos0
            = Inl e"
  show "SmartBalanced_call g evaluate balance sample randperm batch_size recursion_depth
          = Some (Inl e)"
  proof (cases "max_recursion_depth g < recursion_depth")
    case True
    then have "resample_loop g evaluate sample (batch_size div 2) recursion_depth data0 labels0 pos0
            = Inl ValueError" by (simp add: resample_loop_depth)
    with a True assms(1) show ?thesis by (simp add: SmartBalanced_call_def)
  next
    case False
    with a assms(1,2) show ?thesis by (simp add: SmartBalanced_call_def)
  qed
qed

theorem SmartBalanced_call_balanced_witness:
  "(2::nat) \<le> 4 \<and> negative_to_positive smart_example \<and> (\<forall>n. is_randperm n (reversed n))
   \<and> (\<exists>data. SmartBalanced_call smart_example (OneDAdjacent_evaluate oned_default)
                 example_balance (\<lambda>k. alternating_sample (2 * k + 1)) reversed 4 0
               = Some (Inr (data, [False, False, True, True])))
   \<and> positive_count_of [False, False, True, True] = 4 div 2
   \<and> SmartBalanced_call smart_example (OneDAdjacent_evaluate oned_default) example_balance
        (\<lambda>k. alternating_sample (2 * k)) reversed 2 0 = Some (Inl ValueError)
   \<and> resample_loop smart_example (OneDAdjacent_evaluate oned_default)
        (\<lambda>k. alternating_sample (2 * k)) 1 1 [] [True, True] 4 = Inl ValueError"
proof -
  have n: "negative_to_positive smart_example" and m: "max_recursion_depth smart_example \<le> 1"
    by (simp_all add: smart_example_def)
  obtain data where d: "SmartBalanced_call smart_example (OneDAdjacent_evaluate oned_default)
      example_balance (\<lambda>k. alternating_sample (2 * k + 1)) reversed 4 0
        = Some (Inr (data, [False, False, True, True]))"
    using negative_batch by blast
  have le: "(2::nat) \<le> 4" by simp
  from SmartBalanced_call_balanced [OF le n reversed_randperm,
      of "OneDAdjacent_evaluate oned_default" example_balance
        "\<lambda>k. alternating_sample (2 * k + 1)" 0 data "[False, False, True, True]" 
        1 1 "[]" "[True, True]" 4] d m
  have "positive_count_of [False, False, True, True] = 4 div 2"
    and "resample_loop smart_example (OneDAdjacent_evaluate oned_default)
        (\<lambda>k. alternating_sample (2 * k + 1)) 1 1 [] [True, True] 4 = Inl ValueError"
    by blast+
  moreover have "resample_loop smart_example (OneDAdjacent_evaluate oned_default)
        (\<lambda>k. alternating_sample (2 * k)) 1 1 [] [True, True] 4 = Inl ValueError"
    using m by (rule resample_loop_depth)
  ultimately show ?thesis using le n reversed_randperm d positive_batch by blast
qed

end
